theory Spec2Isabelle
  imports Main
begin

section \<open>Python strings as the script uses them\<close>

text \<open>
  The script \<^verbatim>\<open>unusedlambda.py\<close> is Python 3. A \<^verbatim>\<open>str\<close> is modelled as a
  \<^typ>\<open>string\<close> whose characters are read as the code points 0 to 255. The uncaught
  exceptions of the script are values of \<open>py_error\<close>; a function that may raise
  returns \<open>py_error + 'a\<close>, with \<open>Inl\<close> for the exception.
\<close>

datatype py_error = TypeError | KeyError | IndexError | ValueError

text \<open>
  \<^verbatim>\<open>repr\<close> of a \<^verbatim>\<open>str\<close>, as CPython computes it: the text is wrapped in single
  quotes, or in double quotes when it holds a single quote and no double quote; the
  chosen quote and the backslash are escaped with a backslash; tab, line feed and
  carriage return become \<^verbatim>\<open>\t\<close>, \<^verbatim>\<open>\n\<close>, \<^verbatim>\<open>\r\<close>; every other
  character that is not printable becomes \<^verbatim>\<open>\xhh\<close>.
\<close>

definition hexdigits :: string where
  "hexdigits = ''0123456789abcdef''"

definition isprintable :: "char \<Rightarrow> bool" where
  "isprintable ch =
     (let n = (of_char ch :: nat)
      in (32 \<le> n \<and> n < 127) \<or> (161 \<le> n \<and> n \<noteq> 173))"

definition repr_char :: "char \<Rightarrow> char \<Rightarrow> string" where
  "repr_char quote ch =
     (if ch = quote \<or> ch = CHR 0x5C then [CHR 0x5C, ch]
      else if ch = CHR 0x09 then [CHR 0x5C, CHR ''t'']
      else if ch = CHR 0x0A then [CHR 0x5C, CHR ''n'']
      else if ch = CHR 0x0D then [CHR 0x5C, CHR ''r'']
      else if isprintable ch then [ch]
      else [CHR 0x5C, CHR ''x'',
            hexdigits ! ((of_char ch :: nat) div 16), hexdigits ! ((of_char ch :: nat) mod 16)])"

definition repr :: "string \<Rightarrow> string" where
  "repr s =
     (let quote = (if CHR 0x27 \<in> set s \<and> CHR 0x22 \<notin> set s then CHR 0x22 else CHR 0x27)
      in [quote] @ concat (map (repr_char quote) s) @ [quote])"

text \<open>\<^verbatim>\<open>sep.join(xs)\<close>, and \<^verbatim>\<open>str(xs)\<close> for a list of \<^verbatim>\<open>str\<close>.\<close>

fun join :: "string \<Rightarrow> string list \<Rightarrow> string" where
  "join sep [] = []"
| "join sep [x] = x"
| "join sep (x # y # ys) = x @ sep @ join sep (y # ys)"

definition str_list :: "string list \<Rightarrow> string" where
  "str_list xs = ''['' @ join '', '' (map repr xs) @ '']''"

text \<open>The slice \<^verbatim>\<open>s[1:-1]\<close>: without the first and the last character; empty when
  \<open>s\<close> has fewer than two characters.\<close>

definition slice_1_m1 :: "string \<Rightarrow> string" where
  "slice_1_m1 s = butlast (tl s)"

text \<open>\<^verbatim>\<open>s.lstrip(chars)\<close>: the leading characters that occur in \<open>chars\<close> are removed.\<close>

definition lstrip :: "string \<Rightarrow> string \<Rightarrow> string" where
  "lstrip chars s = dropWhile (\<lambda>c. c \<in> set chars) s"

text \<open>
  \<^verbatim>\<open>template.format(...)\<close> for the replacement fields the three templates use: a field
  is \<^verbatim>\<open>{name}\<close>, where the name is a position (\<^verbatim>\<open>0\<close>, \<^verbatim>\<open>1\<close>) or a keyword. The
  arguments are a map from field names to texts. The second argument of
  \<open>format_from\<close> is \<open>None\<close> in literal text and \<open>Some f\<close> inside a field whose name
  so far is \<open>f\<close>. A lone \<^verbatim>\<open>}\<close> and an unclosed field raise ValueError, a position
  that is not given raises IndexError, a keyword that is not given KeyError. Doubled
  braces, fields without a name, conversions and format specifications do not occur
  in the templates and are not modelled.
\<close>

fun prepend :: "string \<Rightarrow> py_error + string \<Rightarrow> py_error + string" where
  "prepend v (Inl e) = Inl e"
| "prepend v (Inr s) = Inr (v @ s)"

definition isdigit :: "char \<Rightarrow> bool" where
  "isdigit c = (c \<in> set ''0123456789'')"

fun format_from :: "(string \<rightharpoonup> string) \<Rightarrow> string option \<Rightarrow> string \<Rightarrow> py_error + string" where
  "format_from args None [] = Inr []"
| "format_from args (Some f) [] = Inl ValueError"
| "format_from args None (c # cs) =
     (if c = CHR ''{'' then format_from args (Some []) cs
      else if c = CHR ''}'' then Inl ValueError
      else prepend [c] (format_from args None cs))"
| "format_from args (Some f) (c # cs) =
     (if c = CHR ''}'' then
        (case args f of
           None \<Rightarrow> Inl (if f \<noteq> [] \<and> list_all isdigit f then IndexError else KeyError)
         | Some v \<Rightarrow> prepend v (format_from args None cs))
      else format_from args (Some (f @ [c])) cs)"

definition format :: "string \<Rightarrow> (string \<rightharpoonup> string) \<Rightarrow> py_error + string" where
  "format template args = format_from args None template"

section \<open>Configuration and statement templates\<close>

text \<open>The module-level constants of the script. The functions below read them from a
  record, so that a statement can be compared under two configurations;
  \<open>module_config\<close> holds the values the script assigns.\<close>

record config =
  ATHENA_S3_BUCKET_NAME :: string
  TABLE_NAME :: string
  CLOUDTRAIL_S3_BUCKET_NAME :: string

definition module_config :: config where
  "module_config =
     \<lparr>ATHENA_S3_BUCKET_NAME = ''s3://athena-history-bucket-demo'',
      TABLE_NAME = ''cloudtrail_logs'',
      CLOUDTRAIL_S3_BUCKET_NAME = ''s3://cloudtrail-logs-bucket/AWSLogs/123456789012/''\<rparr>"

text \<open>
  The three templates, line for line. Each is written as the text before a replacement
  field, the field, and the text after it; the pieces have names because the rendered
  statements are stated with them.
\<close>

definition CREATE_TABLE_head :: string where
  \<open>CREATE_TABLE_head =
   ''CREATE EXTERNAL TABLE ''\<close>

definition CREATE_TABLE_columns :: string where
  \<open>CREATE_TABLE_columns =
   '' (\<newline>'' @
   ''eventversion STRING,\<newline>'' @
   ''userIdentity STRUCT<\<newline>'' @
   ''  type:STRING,\<newline>'' @
   ''  principalid:STRING,\<newline>'' @
   ''  arn:STRING,\<newline>'' @
   ''  accountid:STRING,\<newline>'' @
   ''  invokedby:STRING,\<newline>'' @
   ''  accesskeyid:STRING,\<newline>'' @
   ''  userName:STRING,\<newline>'' @
   ''  sessioncontext:STRUCT<\<newline>'' @
   ''    attributes:STRUCT<\<newline>'' @
   ''      mfaauthenticated:STRING,\<newline>'' @
   ''      creationdate:STRING>,\<newline>'' @
   ''    sessionIssuer:STRUCT<\<newline>'' @
   ''      type:STRING,\<newline>'' @
   ''      principalId:STRING,\<newline>'' @
   ''      arn:STRING,\<newline>'' @
   ''      accountId:STRING,\<newline>'' @
   ''      userName:STRING>>>,\<newline>'' @
   ''eventTime STRING,\<newline>'' @
   ''eventSource STRING,\<newline>'' @
   ''eventName STRING,\<newline>'' @
   ''awsRegion STRING,\<newline>'' @
   ''sourceIpAddress STRING,\<newline>'' @
   ''userAgent STRING,\<newline>'' @
   ''errorCode STRING,\<newline>'' @
   ''errorMessage STRING,\<newline>'' @
   ''requestParameters STRING,\<newline>'' @
   ''responseElements STRING,\<newline>'' @
   ''additionalEventData STRING,\<newline>'' @
   ''requestId STRING,\<newline>'' @
   ''eventId STRING,\<newline>'' @
   ''resources ARRAY<STRUCT<\<newline>'' @
   ''  ARN:STRING,accountId:\<newline>'' @
   ''  STRING,type:STRING>>,\<newline>'' @
   ''eventType STRING,\<newline>'' @
   ''apiVersion STRING,\<newline>'' @
   ''readOnly STRING,\<newline>'' @
   ''recipientAccountId STRING,\<newline>'' @
   ''serviceEventDetails STRING,\<newline>'' @
   ''sharedEventID STRING,\<newline>'' @
   ''vpcEndpointId STRING\<newline>'' @
   '')\<newline>'' @
   ''PARTITIONED BY(year string)\<newline>'' @
   ''ROW FORMAT SERDE 'com.amazon.emr.hive.serde.CloudTrailSerde'\<newline>'' @
   ''STORED AS INPUTFORMAT 'com.amazon.emr.cloudtrail.CloudTrailInputFormat'\<newline>'' @
   ''OUTPUTFORMAT 'org.apache.hadoop.hive.ql.io.HiveIgnoreKeyTextOutputFormat'\<newline>'' @
   ''LOCATION '' @ [CHR 0x27]\<close>

definition CREATE_TABLE_tail :: string where
  \<open>CREATE_TABLE_tail =
   [CHR 0x27] @ '';''\<close>

definition CREATE_TABLE_QUERY_TEMPLATE :: string where
  "CREATE_TABLE_QUERY_TEMPLATE =
     CREATE_TABLE_head @ ''{0}'' @ CREATE_TABLE_columns @ ''{1}'' @ CREATE_TABLE_tail"

definition CREATE_PARTITON_head :: string where
  \<open>CREATE_PARTITON_head =
   ''\<newline>'' @
   ''ALTER TABLE cloudtrail_logs add partition (year="2018")\<newline>'' @
   ''location '' @ [CHR 0x27]\<close>

definition CREATE_PARTITON_tail :: string where
  \<open>CREATE_PARTITON_tail =
   ''/CloudTrail/us-east-1/2018/'' @ [CHR 0x27]\<close>

definition CREATE_PARTITON_QUERY_TEMPLATE :: string where
  "CREATE_PARTITON_QUERY_TEMPLATE = CREATE_PARTITON_head @ ''{0}'' @ CREATE_PARTITON_tail"

definition LAST_RUN_head :: string where
  \<open>LAST_RUN_head =
   ''\<newline>'' @
   ''select json_extract_scalar(requestparameters, '$.functionName') as function_name, Max (eventtime) as "Last Run"\<newline>'' @
   ''from cloudtrail_logs\<newline>'' @
   ''where eventname='Invoke'\<newline>'' @
   ''and year='2018'\<newline>'' @
   ''and from_iso8601_timestamp(eventtime) > current_timestamp - interval '1' month\<newline>'' @
   ''and json_extract_scalar(requestparameters, '$.functionName') in (''\<close>

definition LAST_RUN_tail :: string where
  \<open>LAST_RUN_tail =
   '')\<newline>'' @
   ''group by json_extract_scalar(requestparameters, '$.functionName')''\<close>

definition LAST_RUN_QUERY_TEMPLATE :: string where
  "LAST_RUN_QUERY_TEMPLATE = LAST_RUN_head @ ''{function_arns}'' @ LAST_RUN_tail"

section \<open>Building the three statements\<close>

definition build_query_strings :: "config \<Rightarrow> string list \<Rightarrow> py_error + (string \<times> string \<times> string)" where
  "build_query_strings cfg function_arns =
     (let function_arns_csv = slice_1_m1 (str_list function_arns)
      in case format CREATE_TABLE_QUERY_TEMPLATE
                [''0'' \<mapsto> TABLE_NAME cfg, ''1'' \<mapsto> CLOUDTRAIL_S3_BUCKET_NAME cfg] of
           Inl e \<Rightarrow> Inl e
         | Inr create_table_query \<Rightarrow>
        (case format CREATE_PARTITON_QUERY_TEMPLATE [''0'' \<mapsto> CLOUDTRAIL_S3_BUCKET_NAME cfg] of
           Inl e \<Rightarrow> Inl e
         | Inr create_partition_query \<Rightarrow>
        (case format LAST_RUN_QUERY_TEMPLATE [''function_arns'' \<mapsto> function_arns_csv] of
           Inl e \<Rightarrow> Inl e
         | Inr last_run_query \<Rightarrow>
             Inr (create_table_query, create_partition_query, last_run_query))))"

section \<open>The query service\<close>

text \<open>
  A response of \<^verbatim>\<open>get_query_results\<close>: the rows under
  \<^verbatim>\<open>['ResultSet']['Rows']\<close> and the token of the next page, when the service has
  one. A row has the list \<^verbatim>\<open>'Data'\<close> of its cells; a cell is a dictionary that has
  the key \<^verbatim>\<open>'VarCharValue'\<close> unless the cell is null.
\<close>

datatype datum = Datum (VarCharValue: "string option")

datatype row = Row (Data: "datum list")

record query_results =
  Rows :: "row list"
  NextToken :: "string option"

text \<open>
  The client \<^verbatim>\<open>athena_client\<close> is a parameter: three operations over a service
  state of any type \<open>'s\<close>, each returning the part of the response the script reads and
  the next state.
  \<^item> \<open>start_query_execution QueryString Database OutputLocation\<close> returns the
    \<^verbatim>\<open>QueryExecutionId\<close>;
  \<^item> \<open>get_query_execution QueryExecutionId\<close> returns the
    \<^verbatim>\<open>['QueryExecution']['Status']['State']\<close>;
  \<^item> \<open>get_query_results QueryExecutionId NextToken\<close> returns one page.
  Exceptions raised inside the client are outside the model.
\<close>

record 's athena =
  start_query_execution :: "string \<Rightarrow> string \<Rightarrow> string \<Rightarrow> 's \<Rightarrow> string \<times> 's"
  get_query_execution :: "string \<Rightarrow> 's \<Rightarrow> string \<times> 's"
  get_query_results :: "string \<Rightarrow> string option \<Rightarrow> 's \<Rightarrow> query_results \<times> 's"

text \<open>The calls a run makes, in order: the statement submitted and the identifier the
  service returned for it, the identifier passed to a status call and the state
  reported, the identifier passed to a result call.\<close>

datatype event =
  Submit string string
| Poll string string
| Fetch string

section \<open>Running one statement\<close>

text \<open>
  The \<^verbatim>\<open>while\<close> loop of \<^verbatim>\<open>run_query\<close> and what follows it. \<open>execution_status\<close> is
  \<open>None\<close> before the first status call. The result is \<open>None\<close> when the loop never
  ends; otherwise it holds what \<^verbatim>\<open>run_query\<close> returns (\<open>None\<close> for the bare
  \<^verbatim>\<open>return\<close>), the service state and the calls made so far. Printing and sleeping
  are left out.
\<close>

partial_function (option) run_query_loop ::
  "'s athena \<Rightarrow> string \<Rightarrow> string option \<Rightarrow> 's \<Rightarrow> event list
     \<Rightarrow> (query_results option \<times> 's \<times> event list) option" where
  "run_query_loop athena_client QueryExecutionId execution_status s tr =
     (if execution_status \<noteq> Some ''SUCCEEDED'' then
        (case get_query_execution athena_client (lstrip ''ID'' QueryExecutionId) s of
           (state, s') \<Rightarrow>
             if state = ''FAILED''
             then Some (None, s', tr @ [Poll (lstrip ''ID'' QueryExecutionId) state])
             else run_query_loop athena_client QueryExecutionId (Some state) s'
                    (tr @ [Poll (lstrip ''ID'' QueryExecutionId) state]))
      else
        (case get_query_results athena_client QueryExecutionId None s of
           (results, s') \<Rightarrow> Some (Some results, s', tr @ [Fetch QueryExecutionId])))"

declare run_query_loop.simps [code]

definition run_query ::
  "'s athena \<Rightarrow> config \<Rightarrow> string \<Rightarrow> 's \<Rightarrow> event list
     \<Rightarrow> (query_results option \<times> 's \<times> event list) option" where
  "run_query athena_client cfg query s tr =
     (case start_query_execution athena_client query ''default'' (ATHENA_S3_BUCKET_NAME cfg) s of
        (QueryExecutionId, s') \<Rightarrow>
          run_query_loop athena_client QueryExecutionId None s'
            (tr @ [Submit query QueryExecutionId]))"

section \<open>Reading the result set\<close>

text \<open>The \<^verbatim>\<open>for\<close> loop over \<^verbatim>\<open>result_set[1:]\<close>: an empty \<^verbatim>\<open>'Data'\<close> list raises
  IndexError at \<^verbatim>\<open>[0]\<close>, a cell without \<^verbatim>\<open>'VarCharValue'\<close> raises KeyError.\<close>

fun add_function_arns :: "row list \<Rightarrow> string set \<Rightarrow> py_error + string set" where
  "add_function_arns [] set_of_functions_used = Inr set_of_functions_used"
| "add_function_arns (row # rows) set_of_functions_used =
     (case Data row of
        [] \<Rightarrow> Inl IndexError
      | d # _ \<Rightarrow>
          (case VarCharValue d of
             None \<Rightarrow> Inl KeyError
           | Some function_arn \<Rightarrow>
               add_function_arns rows (insert function_arn set_of_functions_used)))"

definition get_set_of_function_arns_from_result_set :: "row list \<Rightarrow> py_error + string set" where
  "get_set_of_function_arns_from_result_set result_set = add_function_arns (drop 1 result_set) {}"

section \<open>The run\<close>

text \<open>The \<^verbatim>\<open>for q in queries\<close> loop of \<^verbatim>\<open>main\<close>: each result is appended to
  \<^verbatim>\<open>query_results\<close>, whatever it is.\<close>

fun run_queries ::
  "'s athena \<Rightarrow> config \<Rightarrow> string list \<Rightarrow> query_results option list \<Rightarrow> 's \<Rightarrow> event list
     \<Rightarrow> (query_results option list \<times> 's \<times> event list) option" where
  "run_queries athena_client cfg [] query_results s tr = Some (query_results, s, tr)"
| "run_queries athena_client cfg (q # queries) query_results s tr =
     (case run_query athena_client cfg q s tr of
        None \<Rightarrow> None
      | Some (r, s', tr') \<Rightarrow> run_queries athena_client cfg queries (query_results @ [r]) s' tr')"

text \<open>\<^verbatim>\<open>set(function_arns) - set_of_functions_used\<close>. The script turns the difference
  into a list to print it; the order of that list is not determined, so the model
  keeps the set.\<close>

definition difference_list :: "string list \<Rightarrow> string set \<Rightarrow> string set" where
  "difference_list function_arns set_of_functions_used = set function_arns - set_of_functions_used"

text \<open>\<^verbatim>\<open>query_results[-1]['ResultSet']['Rows']\<close>: subscripting \<^verbatim>\<open>None\<close> raises
  TypeError.\<close>

definition last_result_set :: "query_results option list \<Rightarrow> py_error + row list" where
  "last_result_set query_results =
     (if query_results = [] then Inl IndexError
      else case last query_results of
             None \<Rightarrow> Inl TypeError
           | Some results \<Rightarrow> Inr (Rows results))"

text \<open>
  \<^verbatim>\<open>main\<close>, from the list \<open>function_arns\<close> that \<^verbatim>\<open>retrieve_function_arns\<close> returned.
  The outcome of a run that ends is the exception that ended it or the set of
  identifiers printed.
\<close>

definition main ::
  "'s athena \<Rightarrow> config \<Rightarrow> string list \<Rightarrow> 's \<Rightarrow> ((py_error + string set) \<times> 's \<times> event list) option" where
  "main athena_client cfg function_arns s =
     (case build_query_strings cfg function_arns of
        Inl e \<Rightarrow> Some (Inl e, s, [])
      | Inr (create_table_query, create_partition_query, last_run_query) \<Rightarrow>
          (case run_queries athena_client cfg
                  [create_table_query, create_partition_query, last_run_query] [] s [] of
             None \<Rightarrow> None
           | Some (query_results, s', tr) \<Rightarrow>
               Some (case last_result_set query_results of
                       Inl e \<Rightarrow> Inl e
                     | Inr result_set \<Rightarrow>
                         (case get_set_of_function_arns_from_result_set result_set of
                            Inl e \<Rightarrow> Inl e
                          | Inr set_of_functions_used \<Rightarrow>
                              Inr (difference_list function_arns set_of_functions_used)),
                     s', tr)))"

section \<open>Describing a run\<close>

text \<open>
  \<open>polled i final p\<close>: \<open>p\<close> is a sequence of status calls for the execution \<open>i\<close>, each
  with the identifier the loop passes, of which the last reported \<open>final\<close> and none
  before it reported \<^verbatim>\<open>SUCCEEDED\<close> or \<^verbatim>\<open>FAILED\<close>.
\<close>

fun polled :: "string \<Rightarrow> string \<Rightarrow> event list \<Rightarrow> bool" where
  "polled i final [Poll j state] = (j = lstrip ''ID'' i \<and> state = final)"
| "polled i final (Poll j state # e # es) =
     (j = lstrip ''ID'' i \<and> state \<noteq> ''SUCCEEDED'' \<and> state \<noteq> ''FAILED'' \<and> polled i final (e # es))"
| "polled i final _ = False"

text \<open>
  \<open>settled i ok p\<close>: \<open>p\<close> is all that follows the submission of the execution \<open>i\<close>.
  With \<open>ok\<close> the status calls end in \<^verbatim>\<open>SUCCEEDED\<close> and one result call for \<open>i\<close>
  follows; without, they end in \<^verbatim>\<open>FAILED\<close> and nothing follows.
\<close>

definition settled :: "string \<Rightarrow> bool \<Rightarrow> event list \<Rightarrow> bool" where
  "settled i ok p =
     (if ok then p \<noteq> [] \<and> last p = Fetch i \<and> polled i ''SUCCEEDED'' (butlast p)
      else polled i ''FAILED'' p)"

text \<open>The state that the status call reports after \<open>n\<close> earlier status calls for the
  same identifier, from the service state \<open>s\<close>.\<close>

fun poll_after :: "'s athena \<Rightarrow> string \<Rightarrow> nat \<Rightarrow> 's \<Rightarrow> string" where
  "poll_after athena_client i 0 s = fst (get_query_execution athena_client i s)"
| "poll_after athena_client i (Suc n) s =
     poll_after athena_client i n (snd (get_query_execution athena_client i s))"

text \<open>The service state after \<open>n\<close> status calls for the identifier \<open>i\<close> from the
  state \<open>s\<close>, and these \<open>n\<close> calls with the states they report.\<close>

fun after_polls :: "'s athena \<Rightarrow> string \<Rightarrow> nat \<Rightarrow> 's \<Rightarrow> 's" where
  "after_polls athena_client i 0 s = s"
| "after_polls athena_client i (Suc n) s =
     after_polls athena_client i n (snd (get_query_execution athena_client i s))"

fun polls :: "'s athena \<Rightarrow> string \<Rightarrow> nat \<Rightarrow> 's \<Rightarrow> event list" where
  "polls athena_client i 0 s = []"
| "polls athena_client i (Suc n) s =
     Poll i (fst (get_query_execution athena_client i s)) #
     polls athena_client i n (snd (get_query_execution athena_client i s))"

text \<open>
  The complete result set in the words of the specification: the pages are requested
  one after the other, each with the token of the page before, until a page has no
  token, and their rows are put together.
\<close>

partial_function (option) spec_all_pages ::
  "'s athena \<Rightarrow> string \<Rightarrow> string option \<Rightarrow> row list \<Rightarrow> 's \<Rightarrow> (row list \<times> 's) option" where
  "spec_all_pages athena_client i token rows s =
     (case get_query_results athena_client i token s of
        (page, s') \<Rightarrow>
          (case NextToken page of
             None \<Rightarrow> Some (rows @ Rows page, s')
           | Some t \<Rightarrow> spec_all_pages athena_client i (Some t) (rows @ Rows page) s'))"

declare spec_all_pages.simps [code]

text \<open>The data rows that \<^verbatim>\<open>row['Data'][0]['VarCharValue']\<close> can read, and what it reads.\<close>

fun function_arn_of :: "row \<Rightarrow> string option" where
  "function_arn_of (Row []) = None"
| "function_arn_of (Row (d # ds)) = VarCharValue d"


section \<open>Scripted services\<close>

text \<open>
  A service for tests. Its state is the script of the states still to be reported: a
  status call reports the head of the script and drops it, except that the last entry
  stays and is reported from then on. Every submission is answered with the same
  identifier \<open>qid\<close>, and a result call with the page \<open>pages\<close> gives for the token.
\<close>

definition scripted :: "string \<Rightarrow> (string option \<Rightarrow> query_results) \<Rightarrow> string list athena" where
  "scripted qid pages =
     \<lparr>start_query_execution = (\<lambda>query database output_location s. (qid, s)),
      get_query_execution =
        (\<lambda>i s. case s of [] \<Rightarrow> (''RUNNING'', []) | [state] \<Rightarrow> (state, [state]) | state # s' \<Rightarrow> (state, s')),
      get_query_results = (\<lambda>i token s. (pages token, s))\<rparr>"

text \<open>
  A second service for tests, which brings every execution to an end: a status call
  reports the head of the script and drops it, and \<^verbatim>\<open>SUCCEEDED\<close> once the script is
  used up.
\<close>

definition queued :: "string \<Rightarrow> (string option \<Rightarrow> query_results) \<Rightarrow> string list athena" where
  "queued qid pages =
     \<lparr>start_query_execution = (\<lambda>query database output_location s. (qid, s)),
      get_query_execution =
        (\<lambda>i s. case s of [] \<Rightarrow> (''SUCCEEDED'', []) | state # s' \<Rightarrow> (state, s')),
      get_query_results = (\<lambda>i token s. (pages token, s))\<rparr>"

definition one_page :: "row list \<Rightarrow> string option \<Rightarrow> query_results" where
  "one_page rows token = \<lparr>Rows = rows, NextToken = None\<rparr>"

definition two_pages :: "row list \<Rightarrow> row list \<Rightarrow> string option \<Rightarrow> query_results" where
  "two_pages rows1 rows2 token =
     (case token of
        None \<Rightarrow> \<lparr>Rows = rows1, NextToken = Some ''page-2''\<rparr>
      | Some t \<Rightarrow> \<lparr>Rows = rows2, NextToken = None\<rparr>)"

definition header :: row where
  "header = Row [Datum (Some ''function_name''), Datum (Some ''Last Run'')]"

definition invoked :: "string \<Rightarrow> row" where
  "invoked function_arn = Row [Datum (Some function_arn), Datum (Some ''2018-06-01T00:00:00Z'')]"

section \<open>Facts about the rendered statements\<close>

lemma prepend_append: "prepend (u @ v) r = prepend u (prepend v r)"
  by (cases r) simp_all

lemma prepend_Nil: "prepend [] r = r"
  by (cases r) simp_all

lemma format_from_literal:
  "CHR ''{'' \<notin> set lit \<Longrightarrow> CHR ''}'' \<notin> set lit \<Longrightarrow>
   format_from args None (lit @ rest) = prepend lit (format_from args None rest)"
proof (induction lit)
  case Nil
  then show ?case by (simp add: prepend_Nil)
next
  case (Cons c lit)
  from Cons.prems have c: "c \<noteq> CHR ''{''" "c \<noteq> CHR ''}''" by auto
  from Cons have IH: "format_from args None (lit @ rest) = prepend lit (format_from args None rest)" by simp
  show ?case using c IH prepend_append [of "[c]" lit] by simp
qed

lemma format_from_field:
  "CHR ''}'' \<notin> set name \<Longrightarrow> args (f @ name) = Some v \<Longrightarrow>
   format_from args (Some f) (name @ CHR ''}'' # rest) = prepend v (format_from args None rest)"
proof (induction name arbitrary: f)
  case Nil
  then show ?case by simp
next
  case (Cons c name)
  from Cons.prems have c: "c \<noteq> CHR ''}''" and n: "CHR ''}'' \<notin> set name" by auto
  from Cons.prems have "args ((f @ [c]) @ name) = Some v" by simp
  from Cons.IH [OF n this] c show ?case by simp
qed

lemma format_literal_field:
  assumes "CHR ''{'' \<notin> set lit" "CHR ''}'' \<notin> set lit" "CHR ''}'' \<notin> set name" "args name = Some v"
  shows "format_from args None (lit @ CHR ''{'' # name @ CHR ''}'' # rest) = prepend (lit @ v) (format_from args None rest)"
proof -
  have "format_from args None (lit @ CHR ''{'' # name @ CHR ''}'' # rest)
        = prepend lit (format_from args None (CHR ''{'' # name @ CHR ''}'' # rest))"
    using assms(1,2) by (rule format_from_literal)
  also have "format_from args None (CHR ''{'' # name @ CHR ''}'' # rest)
        = format_from args (Some []) (name @ CHR ''}'' # rest)" by simp
  also have "\<dots> = prepend v (format_from args None rest)"
    using assms(3,4) by (simp add: format_from_field)
  finally show ?thesis by (simp add: prepend_append)
qed

lemma format_from_tail:
  assumes "CHR ''{'' \<notin> set lit" "CHR ''}'' \<notin> set lit"
  shows "format_from args None lit = Inr lit"
  using format_from_literal [OF assms, of args "[]"] by simp

lemma braces_CREATE_TABLE:
  "CHR ''{'' \<notin> set CREATE_TABLE_head" "CHR ''}'' \<notin> set CREATE_TABLE_head"
  "CHR ''{'' \<notin> set CREATE_TABLE_columns" "CHR ''}'' \<notin> set CREATE_TABLE_columns"
  "CHR ''{'' \<notin> set CREATE_TABLE_tail" "CHR ''}'' \<notin> set CREATE_TABLE_tail"
  by (simp_all add: CREATE_TABLE_head_def CREATE_TABLE_columns_def CREATE_TABLE_tail_def)

lemma braces_CREATE_PARTITON:
  "CHR ''{'' \<notin> set CREATE_PARTITON_head" "CHR ''}'' \<notin> set CREATE_PARTITON_head"
  "CHR ''{'' \<notin> set CREATE_PARTITON_tail" "CHR ''}'' \<notin> set CREATE_PARTITON_tail"
  by (simp_all add: CREATE_PARTITON_head_def CREATE_PARTITON_tail_def)

lemma braces_LAST_RUN:
  "CHR ''{'' \<notin> set LAST_RUN_head" "CHR ''}'' \<notin> set LAST_RUN_head"
  "CHR ''{'' \<notin> set LAST_RUN_tail" "CHR ''}'' \<notin> set LAST_RUN_tail"
  by (simp_all add: LAST_RUN_head_def LAST_RUN_tail_def)

lemma format_CREATE_TABLE:
  assumes a0: "args ''0'' = Some t" and a1: "args ''1'' = Some b"
  shows "format CREATE_TABLE_QUERY_TEMPLATE args
         = Inr (CREATE_TABLE_head @ t @ CREATE_TABLE_columns @ b @ CREATE_TABLE_tail)"
proof -
  have "format_from args None
          (CREATE_TABLE_head @ CHR ''{'' # ''0'' @ CHR ''}'' #
             (CREATE_TABLE_columns @ CHR ''{'' # ''1'' @ CHR ''}'' # CREATE_TABLE_tail))
        = prepend (CREATE_TABLE_head @ t)
            (format_from args None (CREATE_TABLE_columns @ CHR ''{'' # ''1'' @ CHR ''}'' # CREATE_TABLE_tail))"
    by (rule format_literal_field [where name = "''0''" and v = t]) (simp_all add: braces_CREATE_TABLE a0)
  also have "format_from args None (CREATE_TABLE_columns @ CHR ''{'' # ''1'' @ CHR ''}'' # CREATE_TABLE_tail)
        = prepend (CREATE_TABLE_columns @ b) (format_from args None CREATE_TABLE_tail)"
    by (rule format_literal_field [where name = "''1''" and v = b]) (simp_all add: braces_CREATE_TABLE a1)
  also have "format_from args None CREATE_TABLE_tail = Inr CREATE_TABLE_tail"
    by (rule format_from_tail [OF braces_CREATE_TABLE(5,6)])
  finally show ?thesis by (simp add: format_def CREATE_TABLE_QUERY_TEMPLATE_def)
qed

lemma format_CREATE_PARTITON:
  assumes a0: "args ''0'' = Some b"
  shows "format CREATE_PARTITON_QUERY_TEMPLATE args
         = Inr (CREATE_PARTITON_head @ b @ CREATE_PARTITON_tail)"
proof -
  have "format_from args None (CREATE_PARTITON_head @ CHR ''{'' # ''0'' @ CHR ''}'' # CREATE_PARTITON_tail)
        = prepend (CREATE_PARTITON_head @ b) (format_from args None CREATE_PARTITON_tail)"
    by (rule format_literal_field [where name = "''0''" and v = b]) (simp_all add: braces_CREATE_PARTITON a0)
  also have "format_from args None CREATE_PARTITON_tail = Inr CREATE_PARTITON_tail"
    by (rule format_from_tail [OF braces_CREATE_PARTITON(3,4)])
  finally show ?thesis by (simp add: format_def CREATE_PARTITON_QUERY_TEMPLATE_def)
qed

lemma format_LAST_RUN:
  assumes a0: "args ''function_arns'' = Some csv"
  shows "format LAST_RUN_QUERY_TEMPLATE args = Inr (LAST_RUN_head @ csv @ LAST_RUN_tail)"
proof -
  have "format_from args None (LAST_RUN_head @ CHR ''{'' # ''function_arns'' @ CHR ''}'' # LAST_RUN_tail)
        = prepend (LAST_RUN_head @ csv) (format_from args None LAST_RUN_tail)"
    by (rule format_literal_field [where name = "''function_arns''" and v = csv]) (simp_all add: braces_LAST_RUN a0)
  also have "format_from args None LAST_RUN_tail = Inr LAST_RUN_tail"
    by (rule format_from_tail [OF braces_LAST_RUN(3,4)])
  finally show ?thesis by (simp add: format_def LAST_RUN_QUERY_TEMPLATE_def)
qed

lemma slice_str_list: "slice_1_m1 (str_list xs) = join '', '' (map repr xs)"
  by (simp add: slice_1_m1_def str_list_def butlast_append)

lemma build_query_strings_eq:
  "build_query_strings cfg function_arns =
     Inr (CREATE_TABLE_head @ TABLE_NAME cfg @ CREATE_TABLE_columns @ CLOUDTRAIL_S3_BUCKET_NAME cfg @ CREATE_TABLE_tail,
          CREATE_PARTITON_head @ CLOUDTRAIL_S3_BUCKET_NAME cfg @ CREATE_PARTITON_tail,
          LAST_RUN_head @ join '', '' (map repr function_arns) @ LAST_RUN_tail)"
  by (simp add: build_query_strings_def format_CREATE_TABLE format_CREATE_PARTITON format_LAST_RUN
        slice_str_list)

section \<open>Facts about the calls of a run\<close>

lemma polled_nonempty: "polled i final p \<Longrightarrow> p \<noteq> []"
  by (cases p) auto

lemma polled_Cons:
  "state \<noteq> ''SUCCEEDED'' \<Longrightarrow> state \<noteq> ''FAILED'' \<Longrightarrow> polled i final p \<Longrightarrow>
   polled i final (Poll (lstrip ''ID'' i) state # p)"
  by (cases p) auto

lemma settled_Cons:
  "state \<noteq> ''SUCCEEDED'' \<Longrightarrow> state \<noteq> ''FAILED'' \<Longrightarrow> settled i ok p \<Longrightarrow>
   settled i ok (Poll (lstrip ''ID'' i) state # p)"
  by (cases ok) (auto simp: settled_def polled_Cons dest: polled_nonempty)

lemma run_query_loop_calls:
  assumes "run_query_loop athena_client i execution_status s tr = Some y"
  shows "\<exists>p. snd (snd y) = tr @ p \<and>
            (if execution_status = Some ''SUCCEEDED'' then p = [Fetch i] \<and> fst y \<noteq> None
             else settled i (fst y \<noteq> None) p)"
proof -
  let ?P = "\<lambda>(c :: 's athena) i st (s :: 's) tr (y :: query_results option \<times> 's \<times> event list).
              \<exists>p. snd (snd y) = tr @ p \<and>
                (if st = Some ''SUCCEEDED'' then p = [Fetch i] \<and> fst y \<noteq> None
                 else settled i (fst y \<noteq> None) p)"
  have "?P athena_client i execution_status s tr y"
  proof (rule run_query_loop.raw_induct [where P = ?P, OF _ assms], goal_cases)
    case (1 loop c i st s tr y)
    show ?case
    proof (cases "st = Some ''SUCCEEDED''")
      case True
      with 1(2) show ?thesis by (auto split: prod.splits)
    next
      case False
      obtain state s' where g: "get_query_execution c (lstrip ''ID'' i) s = (state, s')"
        by (cases "get_query_execution c (lstrip ''ID'' i) s")
      show ?thesis
      proof (cases "state = ''FAILED''")
        case True
        with 1(2) False g have "y = (None, s', tr @ [Poll (lstrip ''ID'' i) state])" by simp
        with True False show ?thesis by (simp add: settled_def)
      next
        case nf: False
        with 1(2) False g
        have r: "loop c i (Some state) s' (tr @ [Poll (lstrip ''ID'' i) state]) = Some y" by simp
        from 1(1) [OF r] obtain p where
          p: "snd (snd y) = (tr @ [Poll (lstrip ''ID'' i) state]) @ p"
          and q: "if Some state = Some ''SUCCEEDED'' then p = [Fetch i] \<and> fst y \<noteq> None
                  else settled i (fst y \<noteq> None) p"
          by blast
        show ?thesis
        proof (cases "state = ''SUCCEEDED''")
          case True
          with p q False show ?thesis by (simp add: settled_def)
        next
          case False
          with q have "settled i (fst y \<noteq> None) p" by simp
          from settled_Cons [OF False nf this] p \<open>st \<noteq> Some ''SUCCEEDED''\<close>
          show ?thesis by simp
        qed
      qed
    qed
  qed
  then show ?thesis .
qed

lemma run_query_calls:
  assumes "run_query athena_client cfg query s tr = Some (r, s', tr')"
  shows "\<exists>i p. tr' = tr @ Submit query i # p \<and> settled i (r \<noteq> None) p"
proof -
  obtain i s1 where st: "start_query_execution athena_client query ''default'' (ATHENA_S3_BUCKET_NAME cfg) s = (i, s1)"
    by (cases "start_query_execution athena_client query ''default'' (ATHENA_S3_BUCKET_NAME cfg) s")
  with assms have "run_query_loop athena_client i None s1 (tr @ [Submit query i]) = Some (r, s', tr')"
    by (simp add: run_query_def)
  from run_query_loop_calls [OF this] show ?thesis by auto
qed


lemma run_queries_Cons:
  assumes "run_queries athena_client cfg (q # queries) rs s tr = Some R"
  shows "\<exists>r s1 tr1. run_query athena_client cfg q s tr = Some (r, s1, tr1) \<and>
           run_queries athena_client cfg queries (rs @ [r]) s1 tr1 = Some R"
  using assms by (auto split: option.splits)

lemma run_queries_calls:
  assumes "run_queries athena_client cfg [q1, q2, q3] rs s tr = Some (query_results, s', tr')"
  shows "\<exists>r1 i1 p1 r2 i2 p2 r3 i3 p3.
           query_results = rs @ [r1, r2, r3] \<and>
           tr' = tr @ Submit q1 i1 # p1 @ Submit q2 i2 # p2 @ Submit q3 i3 # p3 \<and>
           settled i1 (r1 \<noteq> None) p1 \<and> settled i2 (r2 \<noteq> None) p2 \<and> settled i3 (r3 \<noteq> None) p3"
proof -
  from run_queries_Cons [OF assms] obtain r1 s1 tr1 where
    a1: "run_query athena_client cfg q1 s tr = Some (r1, s1, tr1)" and
    b1: "run_queries athena_client cfg [q2, q3] (rs @ [r1]) s1 tr1 = Some (query_results, s', tr')"
    by blast
  from run_queries_Cons [OF b1] obtain r2 s2 tr2 where
    a2: "run_query athena_client cfg q2 s1 tr1 = Some (r2, s2, tr2)" and
    b2: "run_queries athena_client cfg [q3] ((rs @ [r1]) @ [r2]) s2 tr2 = Some (query_results, s', tr')"
    by blast
  from run_queries_Cons [OF b2] obtain r3 s3 tr3 where
    a3: "run_query athena_client cfg q3 s2 tr2 = Some (r3, s3, tr3)" and
    b3: "run_queries athena_client cfg [] (((rs @ [r1]) @ [r2]) @ [r3]) s3 tr3 = Some (query_results, s', tr')"
    by blast
  from b3 have e: "query_results = rs @ [r1, r2, r3]" "tr' = tr3" by simp_all
  from run_query_calls [OF a1] obtain i1 p1 where
    c1: "tr1 = tr @ Submit q1 i1 # p1" "settled i1 (r1 \<noteq> None) p1" by blast
  from run_query_calls [OF a2] obtain i2 p2 where
    c2: "tr2 = tr1 @ Submit q2 i2 # p2" "settled i2 (r2 \<noteq> None) p2" by blast
  from run_query_calls [OF a3] obtain i3 p3 where
    c3: "tr3 = tr2 @ Submit q3 i3 # p3" "settled i3 (r3 \<noteq> None) p3" by blast
  from c1 c2 c3 e(2) have "tr' = tr @ Submit q1 i1 # p1 @ Submit q2 i2 # p2 @ Submit q3 i3 # p3"
    by simp
  with e(1) c1(2) c2(2) c3(2) show ?thesis by blast
qed

lemma run_query_loop_restart:
  "execution_status \<noteq> Some ''SUCCEEDED'' \<Longrightarrow>
   run_query_loop athena_client i execution_status s tr = run_query_loop athena_client i None s tr"
  by (simp add: run_query_loop.simps [of _ _ execution_status] run_query_loop.simps [of _ _ None])

lemma run_query_loop_returns:
  "poll_after athena_client (lstrip ''ID'' i) n s = ''SUCCEEDED'' \<or>
   poll_after athena_client (lstrip ''ID'' i) n s = ''FAILED'' \<Longrightarrow>
   \<exists>y. run_query_loop athena_client i None s tr = Some y"
proof (induction n arbitrary: s tr)
  case 0
  obtain state s' where g: "get_query_execution athena_client (lstrip ''ID'' i) s = (state, s')"
    by (cases "get_query_execution athena_client (lstrip ''ID'' i) s")
  with 0 have "state = ''SUCCEEDED'' \<or> state = ''FAILED''" by simp
  then show ?case
    using g by (auto simp: run_query_loop.simps [of _ _ None] run_query_loop.simps [of _ _ "Some ''SUCCEEDED''"]
                     split: prod.splits)
next
  case (Suc n)
  obtain state s' where g: "get_query_execution athena_client (lstrip ''ID'' i) s = (state, s')"
    by (cases "get_query_execution athena_client (lstrip ''ID'' i) s")
  show ?case
  proof (cases "state = ''SUCCEEDED'' \<or> state = ''FAILED''")
    case True
    then show ?thesis
      using g by (auto simp: run_query_loop.simps [of _ _ None] run_query_loop.simps [of _ _ "Some ''SUCCEEDED''"]
                       split: prod.splits)
  next
    case False
    from Suc.prems g have "poll_after athena_client (lstrip ''ID'' i) n s' = ''SUCCEEDED'' \<or>
                           poll_after athena_client (lstrip ''ID'' i) n s' = ''FAILED''" by simp
    from Suc.IH [OF this, of "tr @ [Poll (lstrip ''ID'' i) state]"] obtain y where
      "run_query_loop athena_client i None s' (tr @ [Poll (lstrip ''ID'' i) state]) = Some y" by blast
    moreover from False have "Some state \<noteq> Some ''SUCCEEDED''" by simp
    from run_query_loop_restart [OF this]
    have "run_query_loop athena_client i (Some state) s' (tr @ [Poll (lstrip ''ID'' i) state])
          = run_query_loop athena_client i None s' (tr @ [Poll (lstrip ''ID'' i) state])" .
    ultimately have "run_query_loop athena_client i (Some state) s' (tr @ [Poll (lstrip ''ID'' i) state]) = Some y"
      by simp
    with False g have "run_query_loop athena_client i None s tr = Some y"
      by (simp add: run_query_loop.simps [of _ _ None])
    then show ?thesis by blast
  qed
qed

lemma run_query_returns:
  assumes "start_query_execution athena_client query ''default'' (ATHENA_S3_BUCKET_NAME cfg) s = (i, s1)"
      and "poll_after athena_client (lstrip ''ID'' i) n s1 = ''SUCCEEDED'' \<or>
           poll_after athena_client (lstrip ''ID'' i) n s1 = ''FAILED''"
  shows "\<exists>y. run_query athena_client cfg query s tr = Some y"
  using run_query_loop_returns [OF assms(2)] assms(1) by (simp add: run_query_def)

lemma scripted_cancelled_loop:
  assumes "run_query_loop athena_client i execution_status s tr = Some y"
  shows "athena_client = scripted qid pages \<and> s = [''CANCELLED''] \<longrightarrow> execution_status = Some ''SUCCEEDED''"
proof -
  let ?P = "\<lambda>(c :: string list athena) (i :: string) st (s :: string list) (tr :: event list)
              (y :: query_results option \<times> string list \<times> event list).
              c = scripted qid pages \<and> s = [''CANCELLED''] \<longrightarrow> st = Some ''SUCCEEDED''"
  have "?P athena_client i execution_status s tr y"
  proof (rule run_query_loop.raw_induct [where P = ?P, OF _ assms], goal_cases)
    case (1 loop c i st s tr y)
    show ?case
    proof (intro impI, elim conjE, rule ccontr)
      assume c: "c = scripted qid pages" and s: "s = [''CANCELLED'']" and n: "st \<noteq> Some ''SUCCEEDED''"
      with 1(2) have "loop c i (Some ''CANCELLED'') [''CANCELLED''] (tr @ [Poll (lstrip ''ID'' i) ''CANCELLED'']) = Some y"
        by (simp add: scripted_def)
      from 1(1) [OF this] c show False by simp
    qed
  qed
  then show ?thesis .
qed




text \<open>What \<^verbatim>\<open>run_query\<close> does when the status call number \<open>n\<close> is the first to report
  \<^verbatim>\<open>SUCCEEDED\<close> or \<^verbatim>\<open>FAILED\<close>.\<close>

lemma run_query_loop_failed_at:
  "poll_after athena_client (lstrip ''ID'' i) n s = ''FAILED'' \<Longrightarrow>
   \<forall>m<n. poll_after athena_client (lstrip ''ID'' i) m s \<noteq> ''SUCCEEDED'' \<and>
         poll_after athena_client (lstrip ''ID'' i) m s \<noteq> ''FAILED'' \<Longrightarrow>
   run_query_loop athena_client i None s tr =
     Some (None, after_polls athena_client (lstrip ''ID'' i) (Suc n) s,
           tr @ polls athena_client (lstrip ''ID'' i) (Suc n) s)"
proof (induction n arbitrary: s tr)
  case 0
  obtain state s' where g: "get_query_execution athena_client (lstrip ''ID'' i) s = (state, s')"
    by (cases "get_query_execution athena_client (lstrip ''ID'' i) s")
  with 0 have "state = ''FAILED''" by simp
  with g show ?case
    by (simp add: run_query_loop.simps [of _ _ None])
next
  case (Suc n)
  obtain state s' where g: "get_query_execution athena_client (lstrip ''ID'' i) s = (state, s')"
    by (cases "get_query_execution athena_client (lstrip ''ID'' i) s")
  from Suc.prems(2) g have n0: "state \<noteq> ''SUCCEEDED''" "state \<noteq> ''FAILED''"
    by force+
  from Suc.prems(1) g have a: "poll_after athena_client (lstrip ''ID'' i) n s' = ''FAILED''" by simp
  have b: "\<forall>m<n. poll_after athena_client (lstrip ''ID'' i) m s' \<noteq> ''SUCCEEDED'' \<and>
                 poll_after athena_client (lstrip ''ID'' i) m s' \<noteq> ''FAILED''"
  proof (intro allI impI)
    fix m assume "m < n"
    then have "Suc m < Suc n" by simp
    with Suc.prems(2) g show "poll_after athena_client (lstrip ''ID'' i) m s' \<noteq> ''SUCCEEDED'' \<and>
                 poll_after athena_client (lstrip ''ID'' i) m s' \<noteq> ''FAILED''"
      by (metis poll_after.simps(2) snd_conv)
  qed
  from n0 have "Some state \<noteq> Some ''SUCCEEDED''" by simp
  from run_query_loop_restart [OF this]
  have "run_query_loop athena_client i (Some state) s' (tr @ [Poll (lstrip ''ID'' i) state])
        = run_query_loop athena_client i None s' (tr @ [Poll (lstrip ''ID'' i) state])" .
  with Suc.IH [OF a b, of "tr @ [Poll (lstrip ''ID'' i) state]"] n0 g show ?case
    by (simp add: run_query_loop.simps [of _ _ None])
qed

lemma run_query_loop_succeeded_at:
  "poll_after athena_client (lstrip ''ID'' i) n s = ''SUCCEEDED'' \<Longrightarrow>
   \<forall>m<n. poll_after athena_client (lstrip ''ID'' i) m s \<noteq> ''SUCCEEDED'' \<and>
         poll_after athena_client (lstrip ''ID'' i) m s \<noteq> ''FAILED'' \<Longrightarrow>
   run_query_loop athena_client i None s tr =
     Some (Some (fst (get_query_results athena_client i None
                        (after_polls athena_client (lstrip ''ID'' i) (Suc n) s))),
           snd (get_query_results athena_client i None
                  (after_polls athena_client (lstrip ''ID'' i) (Suc n) s)),
           tr @ polls athena_client (lstrip ''ID'' i) (Suc n) s @ [Fetch i])"
proof (induction n arbitrary: s tr)
  case 0
  obtain state s' where g: "get_query_execution athena_client (lstrip ''ID'' i) s = (state, s')"
    by (cases "get_query_execution athena_client (lstrip ''ID'' i) s")
  with 0 have "state = ''SUCCEEDED''" by simp
  with g show ?case
    by (simp add: run_query_loop.simps [of _ _ None] run_query_loop.simps [of _ _ "Some ''SUCCEEDED''"]
             split: prod.splits)
next
  case (Suc n)
  obtain state s' where g: "get_query_execution athena_client (lstrip ''ID'' i) s = (state, s')"
    by (cases "get_query_execution athena_client (lstrip ''ID'' i) s")
  from Suc.prems(2) g have n0: "state \<noteq> ''SUCCEEDED''" "state \<noteq> ''FAILED''"
    by force+
  from Suc.prems(1) g have a: "poll_after athena_client (lstrip ''ID'' i) n s' = ''SUCCEEDED''" by simp
  have b: "\<forall>m<n. poll_after athena_client (lstrip ''ID'' i) m s' \<noteq> ''SUCCEEDED'' \<and>
                 poll_after athena_client (lstrip ''ID'' i) m s' \<noteq> ''FAILED''"
  proof (intro allI impI)
    fix m assume "m < n"
    then have "Suc m < Suc n" by simp
    with Suc.prems(2) g show "poll_after athena_client (lstrip ''ID'' i) m s' \<noteq> ''SUCCEEDED'' \<and>
                 poll_after athena_client (lstrip ''ID'' i) m s' \<noteq> ''FAILED''"
      by (metis poll_after.simps(2) snd_conv)
  qed
  from n0 have "Some state \<noteq> Some ''SUCCEEDED''" by simp
  from run_query_loop_restart [OF this]
  have "run_query_loop athena_client i (Some state) s' (tr @ [Poll (lstrip ''ID'' i) state])
        = run_query_loop athena_client i None s' (tr @ [Poll (lstrip ''ID'' i) state])" .
  with Suc.IH [OF a b, of "tr @ [Poll (lstrip ''ID'' i) state]"] n0 g show ?case
    by (simp add: run_query_loop.simps [of _ _ None])
qed


text \<open>A run ends when the service lets every statement reach \<^verbatim>\<open>SUCCEEDED\<close> or
  \<^verbatim>\<open>FAILED\<close>.\<close>

lemma run_queries_returns:
  assumes "\<And>query s. \<exists>n.
             poll_after athena_client
               (lstrip ''ID'' (fst (start_query_execution athena_client query ''default'' (ATHENA_S3_BUCKET_NAME cfg) s))) n
               (snd (start_query_execution athena_client query ''default'' (ATHENA_S3_BUCKET_NAME cfg) s))
             \<in> {''SUCCEEDED'', ''FAILED''}"
  shows "\<exists>y. run_queries athena_client cfg queries rs s tr = Some y"
proof (induction queries arbitrary: rs s tr)
  case Nil
  show ?case by simp
next
  case (Cons q queries)
  obtain i s1 where st: "start_query_execution athena_client q ''default'' (ATHENA_S3_BUCKET_NAME cfg) s = (i, s1)"
    by (cases "start_query_execution athena_client q ''default'' (ATHENA_S3_BUCKET_NAME cfg) s")
  from assms [of q s] st obtain n where
    "poll_after athena_client (lstrip ''ID'' i) n s1 = ''SUCCEEDED'' \<or>
     poll_after athena_client (lstrip ''ID'' i) n s1 = ''FAILED''"
    by auto
  from run_query_returns [OF st this, of tr] obtain r s' tr' where
    "run_query athena_client cfg q s tr = Some (r, s', tr')"
    by (metis prod_cases3)
  with Cons.IH [of "rs @ [r]" s' tr'] show ?case by simp
qed

lemma main_returns:
  assumes "\<And>query s. \<exists>n.
             poll_after athena_client
               (lstrip ''ID'' (fst (start_query_execution athena_client query ''default'' (ATHENA_S3_BUCKET_NAME cfg) s))) n
               (snd (start_query_execution athena_client query ''default'' (ATHENA_S3_BUCKET_NAME cfg) s))
             \<in> {''SUCCEEDED'', ''FAILED''}"
  shows "\<exists>y. main athena_client cfg function_arns s = Some y"
proof -
  from run_queries_returns [OF assms] obtain y where
    "run_queries athena_client cfg
       [CREATE_TABLE_head @ TABLE_NAME cfg @ CREATE_TABLE_columns @ CLOUDTRAIL_S3_BUCKET_NAME cfg @ CREATE_TABLE_tail,
        CREATE_PARTITON_head @ CLOUDTRAIL_S3_BUCKET_NAME cfg @ CREATE_PARTITON_tail,
        LAST_RUN_head @ join '', '' (map repr function_arns) @ LAST_RUN_tail] [] s [] = Some y"
    by blast
  then show ?thesis
    by (cases y) (simp add: main_def build_query_strings_eq)
qed

text \<open>The definitions that evaluate a run against a scripted service.\<close>

lemmas run_scripted =
  main_def build_query_strings_eq module_config_def run_query_def scripted_def queued_def
  run_query_loop.simps lstrip_def one_page_def two_pages_def last_result_set_def
  get_set_of_function_arns_from_result_set_def header_def invoked_def difference_list_def
  repr_def repr_char_def isprintable_def Let_def insert_Diff_if

section \<open>Facts about reading the result set\<close>

lemma add_function_arns_readable:
  "list_all (\<lambda>row. function_arn_of row \<noteq> None) rows \<Longrightarrow>
   add_function_arns rows acc = Inr (acc \<union> Option.these (function_arn_of ` set rows))"
proof (induction rows arbitrary: acc)
  case Nil
  then show ?case by simp
next
  case (Cons row rows)
  from Cons.prems obtain d ds v where row: "row = Row (d # ds)" and v: "VarCharValue d = Some v"
    by (cases row rule: function_arn_of.cases) auto
  from Cons.prems have "list_all (\<lambda>row. function_arn_of row \<noteq> None) rows" by simp
  from Cons.IH [OF this, of "insert v acc"] row v show ?case
    by simp
qed

text \<open>The exception at a row that cannot be read.\<close>

lemma add_function_arns_unreadable:
  "\<not> list_all (\<lambda>row. function_arn_of row \<noteq> None) rows \<Longrightarrow>
   add_function_arns rows acc =
     Inl (if Data (hd (dropWhile (\<lambda>row. function_arn_of row \<noteq> None) rows)) = []
          then IndexError else KeyError)"
proof (induction rows arbitrary: acc)
  case Nil
  then show ?case by simp
next
  case (Cons row rows)
  show ?case
  proof (cases "function_arn_of row")
    case None
    then show ?thesis by (cases row rule: function_arn_of.cases) auto
  next
    case (Some v)
    with Cons.prems have "\<not> list_all (\<lambda>row. function_arn_of row \<noteq> None) rows" by simp
    from Cons.IH [OF this] Some show ?thesis
      by (cases row rule: function_arn_of.cases) auto
  qed
qed

lemma main_outcome:
  assumes "build_query_strings cfg function_arns = Inr (q1, q2, q3)"
      and "run_queries athena_client cfg [q1, q2, q3] [] s [] = Some (query_results, s', tr)"
  shows "main athena_client cfg function_arns s =
           Some (case last_result_set query_results of
                   Inl e \<Rightarrow> Inl e
                 | Inr result_set \<Rightarrow>
                     (case get_set_of_function_arns_from_result_set result_set of
                        Inl e \<Rightarrow> Inl e
                      | Inr set_of_functions_used \<Rightarrow>
                          Inr (difference_list function_arns set_of_functions_used)),
                 s', tr)"
  using assms by (simp add: main_def)

section \<open>C1: the order of the submissions\<close>




section \<open>C2: the stale set\<close>

text \<open>
  C2. When the three statements have been run and the parser has read the active set
  from the last result, \<^verbatim>\<open>main\<close> ends with exactly the set of the inventory's
  identifiers without the active ones. A second run, with the inventory in another
  order or with repetitions, and with the data rows of its result in another order or
  with repetitions, ends with the same set. An empty inventory gives the empty set,
  and so does an inventory whose identifiers are all active.
\<close>

theorem main_reports_set_difference:
  assumes "build_query_strings cfg function_arns = Inr (q1, q2, q3)"
      and "run_queries athena_client cfg [q1, q2, q3] [] s [] = Some (query_results, s', tr)"
      and "last_result_set query_results = Inr result_set"
      and "get_set_of_function_arns_from_result_set result_set = Inr used"
      and "build_query_strings cfg2 function_arns2 = Inr (q12, q22, q32)"
      and "run_queries athena_client2 cfg2 [q12, q22, q32] [] s2 [] = Some (query_results2, s2', tr2)"
      and "last_result_set query_results2 = Inr result_set2"
      and "get_set_of_function_arns_from_result_set result_set2 = Inr used2"
  shows "main athena_client cfg function_arns s = Some (Inr (set function_arns - used), s', tr) \<and>
         (set function_arns2 = set function_arns \<and>
          set (drop 1 result_set2) = set (drop 1 result_set) \<longrightarrow>
            main athena_client2 cfg2 function_arns2 s2 = Some (Inr (set function_arns - used), s2', tr2)) \<and>
         (function_arns = [] \<longrightarrow> main athena_client cfg function_arns s = Some (Inr {}, s', tr)) \<and>
         (set function_arns \<subseteq> used \<longrightarrow>
            main athena_client cfg function_arns s = Some (Inr {}, s', tr))"
proof -
  have m1: "main athena_client cfg function_arns s = Some (Inr (set function_arns - used), s', tr)"
    using main_outcome [OF assms(1,2)] assms(3,4) by (simp add: difference_list_def)
  have m2: "main athena_client2 cfg2 function_arns2 s2 = Some (Inr (set function_arns2 - used2), s2', tr2)"
    using main_outcome [OF assms(5,6)] assms(7,8) by (simp add: difference_list_def)
  have u: "used2 = used" if e: "set (drop 1 result_set2) = set (drop 1 result_set)"
  proof -
    have r: "list_all (\<lambda>row. function_arn_of row \<noteq> None) (drop 1 result_set)"
      using assms(4) add_function_arns_unreadable [of "drop 1 result_set" "{}"]
      by (auto simp: get_set_of_function_arns_from_result_set_def)
    then have r2: "list_all (\<lambda>row. function_arn_of row \<noteq> None) (drop 1 result_set2)"
      using e by (simp add: list_all_iff)
    from assms(4) add_function_arns_readable [OF r, of "{}"]
    have "used = Option.these (function_arn_of ` set (drop 1 result_set))"
      by (simp add: get_set_of_function_arns_from_result_set_def)
    moreover from assms(8) add_function_arns_readable [OF r2, of "{}"]
    have "used2 = Option.these (function_arn_of ` set (drop 1 result_set2))"
      by (simp add: get_set_of_function_arns_from_result_set_def)
    ultimately show ?thesis using e by simp
  qed
  from m1 m2 u show ?thesis by auto
qed

theorem main_reports_set_difference_witness:
  "set [''fn-c'', ''fn-a'', ''fn-b'', ''fn-a''] = set [''fn-a'', ''fn-b'', ''fn-c''] \<and>
   set (drop 1 [header, invoked ''fn-c'', invoked ''fn-a'', invoked ''fn-c'']) = set (drop 1 [header, invoked ''fn-a'', invoked ''fn-c'']) \<and>
   get_set_of_function_arns_from_result_set [header, invoked ''fn-a'', invoked ''fn-c''] = Inr {''fn-a'', ''fn-c''} \<and>
   get_set_of_function_arns_from_result_set [header, invoked ''fn-c'', invoked ''fn-a'', invoked ''fn-c''] = Inr {''fn-a'', ''fn-c''} \<and>
   set [''fn-a'', ''fn-c''] \<subseteq> {''fn-a'', ''fn-c''} \<and>
   map_option fst (main (scripted ''q-1'' (one_page [header, invoked ''fn-a'', invoked ''fn-c''])) module_config [''fn-a'', ''fn-b'', ''fn-c''] [''SUCCEEDED'']) = Some (Inr {''fn-b''}) \<and>
   map_option fst (main (scripted ''q-1'' (one_page [header, invoked ''fn-c'', invoked ''fn-a'', invoked ''fn-c''])) module_config [''fn-c'', ''fn-a'', ''fn-b'', ''fn-a''] [''SUCCEEDED'']) = Some (Inr {''fn-b''}) \<and>
   map_option fst (main (scripted ''q-1'' (one_page [header, invoked ''fn-a'', invoked ''fn-c''])) module_config [] [''SUCCEEDED'']) = Some (Inr {}) \<and>
   map_option fst (main (scripted ''q-1'' (one_page [header, invoked ''fn-a'', invoked ''fn-c''])) module_config [''fn-a'', ''fn-c''] [''SUCCEEDED'']) = Some (Inr {})"
proof -
  have e1: "set [''fn-c'', ''fn-a'', ''fn-b'', ''fn-a''] = set [''fn-a'', ''fn-b'', ''fn-c'']" by auto
  have e2: "set (drop 1 [header, invoked ''fn-c'', invoked ''fn-a'', invoked ''fn-c'']) = set (drop 1 [header, invoked ''fn-a'', invoked ''fn-c''])" by auto
  have p1: "get_set_of_function_arns_from_result_set [header, invoked ''fn-a'', invoked ''fn-c''] = Inr {''fn-a'', ''fn-c''}"
    by (auto simp: get_set_of_function_arns_from_result_set_def header_def invoked_def)
  have p2: "get_set_of_function_arns_from_result_set [header, invoked ''fn-c'', invoked ''fn-a'', invoked ''fn-c''] = Inr {''fn-a'', ''fn-c''}"
    by (auto simp: get_set_of_function_arns_from_result_set_def header_def invoked_def)
  have e4: "set [''fn-a'', ''fn-c''] \<subseteq> {''fn-a'', ''fn-c''}" by simp
  have d: "set [''fn-a'', ''fn-b'', ''fn-c''] - {''fn-a'', ''fn-c''} = {''fn-b''}" by auto
  have b1: "build_query_strings module_config [''fn-a'', ''fn-b'', ''fn-c''] =
     Inr (CREATE_TABLE_head @ ''cloudtrail_logs'' @ CREATE_TABLE_columns @
      ''s3://cloudtrail-logs-bucket/AWSLogs/123456789012/'' @ CREATE_TABLE_tail,
      CREATE_PARTITON_head @ ''s3://cloudtrail-logs-bucket/AWSLogs/123456789012/'' @
      CREATE_PARTITON_tail,
      LAST_RUN_head @ join '', '' (map repr [''fn-a'', ''fn-b'', ''fn-c'']) @ LAST_RUN_tail)"
    by (simp add: build_query_strings_eq module_config_def)
  have r1: "run_queries (scripted ''q-1'' (one_page [header, invoked ''fn-a'', invoked ''fn-c''])) module_config
       [CREATE_TABLE_head @ ''cloudtrail_logs'' @ CREATE_TABLE_columns @
      ''s3://cloudtrail-logs-bucket/AWSLogs/123456789012/'' @ CREATE_TABLE_tail,
      CREATE_PARTITON_head @ ''s3://cloudtrail-logs-bucket/AWSLogs/123456789012/'' @
      CREATE_PARTITON_tail,
      LAST_RUN_head @ join '', '' (map repr [''fn-a'', ''fn-b'', ''fn-c'']) @ LAST_RUN_tail] [] [''SUCCEEDED''] []
     = Some ([Some \<lparr>Rows = [header, invoked ''fn-a'', invoked ''fn-c''], NextToken = None\<rparr>, Some \<lparr>Rows = [header, invoked ''fn-a'', invoked ''fn-c''], NextToken = None\<rparr>, Some \<lparr>Rows = [header, invoked ''fn-a'', invoked ''fn-c''], NextToken = None\<rparr>], [''SUCCEEDED''],
       [Submit (CREATE_TABLE_head @ ''cloudtrail_logs'' @ CREATE_TABLE_columns @
      ''s3://cloudtrail-logs-bucket/AWSLogs/123456789012/'' @ CREATE_TABLE_tail) ''q-1'',
       Poll ''q-1'' ''SUCCEEDED'', Fetch ''q-1'',
       Submit (CREATE_PARTITON_head @ ''s3://cloudtrail-logs-bucket/AWSLogs/123456789012/'' @
      CREATE_PARTITON_tail) ''q-1'',
       Poll ''q-1'' ''SUCCEEDED'', Fetch ''q-1'',
       Submit (LAST_RUN_head @ join '', '' (map repr [''fn-a'', ''fn-b'', ''fn-c'']) @ LAST_RUN_tail) ''q-1'',
       Poll ''q-1'' ''SUCCEEDED'', Fetch ''q-1''])"
    by (simp add: run_query_def scripted_def run_query_loop.simps lstrip_def one_page_def)
  have l1: "last_result_set [Some \<lparr>Rows = [header, invoked ''fn-a'', invoked ''fn-c''], NextToken = None\<rparr>, Some \<lparr>Rows = [header, invoked ''fn-a'', invoked ''fn-c''], NextToken = None\<rparr>, Some \<lparr>Rows = [header, invoked ''fn-a'', invoked ''fn-c''], NextToken = None\<rparr>] = Inr [header, invoked ''fn-a'', invoked ''fn-c'']"
    by (simp add: last_result_set_def)
  have b2: "build_query_strings module_config [''fn-c'', ''fn-a'', ''fn-b'', ''fn-a''] =
     Inr (CREATE_TABLE_head @ ''cloudtrail_logs'' @ CREATE_TABLE_columns @
      ''s3://cloudtrail-logs-bucket/AWSLogs/123456789012/'' @ CREATE_TABLE_tail,
      CREATE_PARTITON_head @ ''s3://cloudtrail-logs-bucket/AWSLogs/123456789012/'' @
      CREATE_PARTITON_tail,
      LAST_RUN_head @ join '', '' (map repr [''fn-c'', ''fn-a'', ''fn-b'', ''fn-a'']) @ LAST_RUN_tail)"
    by (simp add: build_query_strings_eq module_config_def)
  have r2: "run_queries (scripted ''q-1'' (one_page [header, invoked ''fn-c'', invoked ''fn-a'', invoked ''fn-c''])) module_config
       [CREATE_TABLE_head @ ''cloudtrail_logs'' @ CREATE_TABLE_columns @
      ''s3://cloudtrail-logs-bucket/AWSLogs/123456789012/'' @ CREATE_TABLE_tail,
      CREATE_PARTITON_head @ ''s3://cloudtrail-logs-bucket/AWSLogs/123456789012/'' @
      CREATE_PARTITON_tail,
      LAST_RUN_head @ join '', '' (map repr [''fn-c'', ''fn-a'', ''fn-b'', ''fn-a'']) @ LAST_RUN_tail] [] [''SUCCEEDED''] []
     = Some ([Some \<lparr>Rows = [header, invoked ''fn-c'', invoked ''fn-a'', invoked ''fn-c''], NextToken = None\<rparr>, Some \<lparr>Rows = [header, invoked ''fn-c'', invoked ''fn-a'', invoked ''fn-c''], NextToken = None\<rparr>, Some \<lparr>Rows = [header, invoked ''fn-c'', invoked ''fn-a'', invoked ''fn-c''], NextToken = None\<rparr>], [''SUCCEEDED''],
       [Submit (CREATE_TABLE_head @ ''cloudtrail_logs'' @ CREATE_TABLE_columns @
      ''s3://cloudtrail-logs-bucket/AWSLogs/123456789012/'' @ CREATE_TABLE_tail) ''q-1'',
       Poll ''q-1'' ''SUCCEEDED'', Fetch ''q-1'',
       Submit (CREATE_PARTITON_head @ ''s3://cloudtrail-logs-bucket/AWSLogs/123456789012/'' @
      CREATE_PARTITON_tail) ''q-1'',
       Poll ''q-1'' ''SUCCEEDED'', Fetch ''q-1'',
       Submit (LAST_RUN_head @ join '', '' (map repr [''fn-c'', ''fn-a'', ''fn-b'', ''fn-a'']) @ LAST_RUN_tail) ''q-1'',
       Poll ''q-1'' ''SUCCEEDED'', Fetch ''q-1''])"
    by (simp add: run_query_def scripted_def run_query_loop.simps lstrip_def one_page_def)
  have l2: "last_result_set [Some \<lparr>Rows = [header, invoked ''fn-c'', invoked ''fn-a'', invoked ''fn-c''], NextToken = None\<rparr>, Some \<lparr>Rows = [header, invoked ''fn-c'', invoked ''fn-a'', invoked ''fn-c''], NextToken = None\<rparr>, Some \<lparr>Rows = [header, invoked ''fn-c'', invoked ''fn-a'', invoked ''fn-c''], NextToken = None\<rparr>] = Inr [header, invoked ''fn-c'', invoked ''fn-a'', invoked ''fn-c'']"
    by (simp add: last_result_set_def)
  have b3: "build_query_strings module_config [] =
     Inr (CREATE_TABLE_head @ ''cloudtrail_logs'' @ CREATE_TABLE_columns @
      ''s3://cloudtrail-logs-bucket/AWSLogs/123456789012/'' @ CREATE_TABLE_tail,
      CREATE_PARTITON_head @ ''s3://cloudtrail-logs-bucket/AWSLogs/123456789012/'' @
      CREATE_PARTITON_tail,
      LAST_RUN_head @ join '', '' (map repr []) @ LAST_RUN_tail)"
    by (simp add: build_query_strings_eq module_config_def)
  have r3: "run_queries (scripted ''q-1'' (one_page [header, invoked ''fn-a'', invoked ''fn-c''])) module_config
       [CREATE_TABLE_head @ ''cloudtrail_logs'' @ CREATE_TABLE_columns @
      ''s3://cloudtrail-logs-bucket/AWSLogs/123456789012/'' @ CREATE_TABLE_tail,
      CREATE_PARTITON_head @ ''s3://cloudtrail-logs-bucket/AWSLogs/123456789012/'' @
      CREATE_PARTITON_tail,
      LAST_RUN_head @ join '', '' (map repr []) @ LAST_RUN_tail] [] [''SUCCEEDED''] []
     = Some ([Some \<lparr>Rows = [header, invoked ''fn-a'', invoked ''fn-c''], NextToken = None\<rparr>, Some \<lparr>Rows = [header, invoked ''fn-a'', invoked ''fn-c''], NextToken = None\<rparr>, Some \<lparr>Rows = [header, invoked ''fn-a'', invoked ''fn-c''], NextToken = None\<rparr>], [''SUCCEEDED''],
       [Submit (CREATE_TABLE_head @ ''cloudtrail_logs'' @ CREATE_TABLE_columns @
      ''s3://cloudtrail-logs-bucket/AWSLogs/123456789012/'' @ CREATE_TABLE_tail) ''q-1'',
       Poll ''q-1'' ''SUCCEEDED'', Fetch ''q-1'',
       Submit (CREATE_PARTITON_head @ ''s3://cloudtrail-logs-bucket/AWSLogs/123456789012/'' @
      CREATE_PARTITON_tail) ''q-1'',
       Poll ''q-1'' ''SUCCEEDED'', Fetch ''q-1'',
       Submit (LAST_RUN_head @ join '', '' (map repr []) @ LAST_RUN_tail) ''q-1'',
       Poll ''q-1'' ''SUCCEEDED'', Fetch ''q-1''])"
    by (simp add: run_query_def scripted_def run_query_loop.simps lstrip_def one_page_def)
  have l3: "last_result_set [Some \<lparr>Rows = [header, invoked ''fn-a'', invoked ''fn-c''], NextToken = None\<rparr>, Some \<lparr>Rows = [header, invoked ''fn-a'', invoked ''fn-c''], NextToken = None\<rparr>, Some \<lparr>Rows = [header, invoked ''fn-a'', invoked ''fn-c''], NextToken = None\<rparr>] = Inr [header, invoked ''fn-a'', invoked ''fn-c'']"
    by (simp add: last_result_set_def)
  have b4: "build_query_strings module_config [''fn-a'', ''fn-c''] =
     Inr (CREATE_TABLE_head @ ''cloudtrail_logs'' @ CREATE_TABLE_columns @
      ''s3://cloudtrail-logs-bucket/AWSLogs/123456789012/'' @ CREATE_TABLE_tail,
      CREATE_PARTITON_head @ ''s3://cloudtrail-logs-bucket/AWSLogs/123456789012/'' @
      CREATE_PARTITON_tail,
      LAST_RUN_head @ join '', '' (map repr [''fn-a'', ''fn-c'']) @ LAST_RUN_tail)"
    by (simp add: build_query_strings_eq module_config_def)
  have r4: "run_queries (scripted ''q-1'' (one_page [header, invoked ''fn-a'', invoked ''fn-c''])) module_config
       [CREATE_TABLE_head @ ''cloudtrail_logs'' @ CREATE_TABLE_columns @
      ''s3://cloudtrail-logs-bucket/AWSLogs/123456789012/'' @ CREATE_TABLE_tail,
      CREATE_PARTITON_head @ ''s3://cloudtrail-logs-bucket/AWSLogs/123456789012/'' @
      CREATE_PARTITON_tail,
      LAST_RUN_head @ join '', '' (map repr [''fn-a'', ''fn-c'']) @ LAST_RUN_tail] [] [''SUCCEEDED''] []
     = Some ([Some \<lparr>Rows = [header, invoked ''fn-a'', invoked ''fn-c''], NextToken = None\<rparr>, Some \<lparr>Rows = [header, invoked ''fn-a'', invoked ''fn-c''], NextToken = None\<rparr>, Some \<lparr>Rows = [header, invoked ''fn-a'', invoked ''fn-c''], NextToken = None\<rparr>], [''SUCCEEDED''],
       [Submit (CREATE_TABLE_head @ ''cloudtrail_logs'' @ CREATE_TABLE_columns @
      ''s3://cloudtrail-logs-bucket/AWSLogs/123456789012/'' @ CREATE_TABLE_tail) ''q-1'',
       Poll ''q-1'' ''SUCCEEDED'', Fetch ''q-1'',
       Submit (CREATE_PARTITON_head @ ''s3://cloudtrail-logs-bucket/AWSLogs/123456789012/'' @
      CREATE_PARTITON_tail) ''q-1'',
       Poll ''q-1'' ''SUCCEEDED'', Fetch ''q-1'',
       Submit (LAST_RUN_head @ join '', '' (map repr [''fn-a'', ''fn-c'']) @ LAST_RUN_tail) ''q-1'',
       Poll ''q-1'' ''SUCCEEDED'', Fetch ''q-1''])"
    by (simp add: run_query_def scripted_def run_query_loop.simps lstrip_def one_page_def)
  have l4: "last_result_set [Some \<lparr>Rows = [header, invoked ''fn-a'', invoked ''fn-c''], NextToken = None\<rparr>, Some \<lparr>Rows = [header, invoked ''fn-a'', invoked ''fn-c''], NextToken = None\<rparr>, Some \<lparr>Rows = [header, invoked ''fn-a'', invoked ''fn-c''], NextToken = None\<rparr>] = Inr [header, invoked ''fn-a'', invoked ''fn-c'']"
    by (simp add: last_result_set_def)

  note t12 = main_reports_set_difference [OF b1 r1 l1 p1 b2 r2 l2 p2]
  note t33 = main_reports_set_difference [OF b3 r3 l3 p1 b3 r3 l3 p1]
  note t44 = main_reports_set_difference [OF b4 r4 l4 p1 b4 r4 l4 p1]
  from t12 d have m1: "map_option fst (main (scripted ''q-1'' (one_page [header, invoked ''fn-a'', invoked ''fn-c''])) module_config [''fn-a'', ''fn-b'', ''fn-c''] [''SUCCEEDED'']) = Some (Inr {''fn-b''})" by simp
  from t12 e1 e2 d have m2: "map_option fst (main (scripted ''q-1'' (one_page [header, invoked ''fn-c'', invoked ''fn-a'', invoked ''fn-c''])) module_config [''fn-c'', ''fn-a'', ''fn-b'', ''fn-a''] [''SUCCEEDED'']) = Some (Inr {''fn-b''})" by simp
  from t33 have m3: "map_option fst (main (scripted ''q-1'' (one_page [header, invoked ''fn-a'', invoked ''fn-c''])) module_config [] [''SUCCEEDED'']) = Some (Inr {})" by simp
  from t44 e4 have m4: "map_option fst (main (scripted ''q-1'' (one_page [header, invoked ''fn-a'', invoked ''fn-c''])) module_config [''fn-a'', ''fn-c''] [''SUCCEEDED'']) = Some (Inr {})" by simp
  from e1 e2 p1 p2 e4 m1 m2 m3 m4 show ?thesis by (intro conjI)
qed

section \<open>C3: the end of the status loop\<close>

text \<open>
  C3 asks that the status loop ends once the service reports any terminal state, also
  \<^verbatim>\<open>CANCELLED\<close>. The loop of \<^verbatim>\<open>run_query\<close> leaves on \<^verbatim>\<open>SUCCEEDED\<close> and returns on
  \<^verbatim>\<open>FAILED\<close>, and has no case for \<^verbatim>\<open>CANCELLED\<close>: against a service that reports
  \<^verbatim>\<open>RUNNING\<close> once and \<^verbatim>\<open>CANCELLED\<close> from then on, \<^verbatim>\<open>run_query\<close> never returns.
  For an execution that reaches \<^verbatim>\<open>SUCCEEDED\<close> or \<^verbatim>\<open>FAILED\<close> it does return
  (\<open>run_query_returns\<close>).
\<close>

theorem run_query_cancelled_never_returns:
  "run_query (scripted qid pages) cfg query [''RUNNING'', ''CANCELLED''] tr = None"
proof (rule ccontr)
  assume "run_query (scripted qid pages) cfg query [''RUNNING'', ''CANCELLED''] tr \<noteq> None"
  then obtain y where "run_query (scripted qid pages) cfg query [''RUNNING'', ''CANCELLED''] tr = Some y"
    by blast
  then have "run_query_loop (scripted qid pages) qid None [''RUNNING'', ''CANCELLED''] (tr @ [Submit query qid]) = Some y"
    by (simp add: run_query_def scripted_def)
  then have "run_query_loop (scripted qid pages) qid (Some ''RUNNING'') [''CANCELLED'']
               (tr @ [Submit query qid, Poll (lstrip ''ID'' qid) ''RUNNING'']) = Some y"
    by (subst (asm) run_query_loop.simps) (simp add: scripted_def)
  from scripted_cancelled_loop [OF this, of qid pages] show False by simp
qed

section \<open>C4: the pages of a result\<close>

text \<open>
  C4, as the script does it. When the status calls of an execution reach
  \<^verbatim>\<open>SUCCEEDED\<close> (and no status call before reported \<^verbatim>\<open>SUCCEEDED\<close> or \<^verbatim>\<open>FAILED\<close>),
  \<^verbatim>\<open>run_query\<close> returns, and after these status calls it has made exactly one more
  call: one result call, for the submitted identifier and without a page token. It
  returns the response of that call as it is. This is the first page: when the
  service has more pages they are not requested, and the token of the next page is
  returned unused.
\<close>

theorem run_query_fetches_one_page:
  assumes "start_query_execution athena_client query ''default'' (ATHENA_S3_BUCKET_NAME cfg) s = (i, s0)"
      and "poll_after athena_client (lstrip ''ID'' i) n s0 = ''SUCCEEDED''"
      and "\<forall>m<n. poll_after athena_client (lstrip ''ID'' i) m s0 \<noteq> ''SUCCEEDED'' \<and>
                 poll_after athena_client (lstrip ''ID'' i) m s0 \<noteq> ''FAILED''"
  shows "run_query athena_client cfg query s tr =
           Some (Some (fst (get_query_results athena_client i None
                              (after_polls athena_client (lstrip ''ID'' i) (Suc n) s0))),
                 snd (get_query_results athena_client i None
                        (after_polls athena_client (lstrip ''ID'' i) (Suc n) s0)),
                 tr @ Submit query i # polls athena_client (lstrip ''ID'' i) (Suc n) s0 @ [Fetch i])"
  using run_query_loop_succeeded_at [OF assms(2,3), of "tr @ [Submit query i]"] assms(1)
  by (simp add: run_query_def)

theorem run_query_fetches_one_page_witness:
  "start_query_execution (scripted ''q-1'' (two_pages [header, invoked ''fn-a''] [invoked ''fn-c'']))
      ''select 1'' ''default'' (ATHENA_S3_BUCKET_NAME module_config) [''RUNNING'', ''SUCCEEDED'']
     = (''q-1'', [''RUNNING'', ''SUCCEEDED'']) \<and>
   poll_after (scripted ''q-1'' (two_pages [header, invoked ''fn-a''] [invoked ''fn-c'']))
      (lstrip ''ID'' ''q-1'') 1 [''RUNNING'', ''SUCCEEDED''] = ''SUCCEEDED'' \<and>
   poll_after (scripted ''q-1'' (two_pages [header, invoked ''fn-a''] [invoked ''fn-c'']))
      (lstrip ''ID'' ''q-1'') 0 [''RUNNING'', ''SUCCEEDED''] = ''RUNNING'' \<and>
   run_query (scripted ''q-1'' (two_pages [header, invoked ''fn-a''] [invoked ''fn-c'']))
      module_config ''select 1'' [''RUNNING'', ''SUCCEEDED''] []
   = Some (Some \<lparr>Rows = [header, invoked ''fn-a''], NextToken = Some ''page-2''\<rparr>, [''SUCCEEDED''],
       [Submit ''select 1'' ''q-1'', Poll ''q-1'' ''RUNNING'', Poll ''q-1'' ''SUCCEEDED'', Fetch ''q-1''])"
proof -
  let ?c = "scripted ''q-1'' (two_pages [header, invoked ''fn-a''] [invoked ''fn-c''])"
  have a: "start_query_execution ?c ''select 1'' ''default'' (ATHENA_S3_BUCKET_NAME module_config)
             [''RUNNING'', ''SUCCEEDED''] = (''q-1'', [''RUNNING'', ''SUCCEEDED''])"
    by (simp add: scripted_def)
  have b: "poll_after ?c (lstrip ''ID'' ''q-1'') (Suc 0) [''RUNNING'', ''SUCCEEDED''] = ''SUCCEEDED''"
    by (simp add: scripted_def)
  have c: "poll_after ?c (lstrip ''ID'' ''q-1'') 0 [''RUNNING'', ''SUCCEEDED''] = ''RUNNING''"
    by (simp add: scripted_def)
  from c have d: "\<forall>m<Suc 0. poll_after ?c (lstrip ''ID'' ''q-1'') m [''RUNNING'', ''SUCCEEDED''] \<noteq> ''SUCCEEDED'' \<and>
                 poll_after ?c (lstrip ''ID'' ''q-1'') m [''RUNNING'', ''SUCCEEDED''] \<noteq> ''FAILED''"
    by simp
  have e: "run_query ?c module_config ''select 1'' [''RUNNING'', ''SUCCEEDED''] []
   = Some (Some \<lparr>Rows = [header, invoked ''fn-a''], NextToken = Some ''page-2''\<rparr>, [''SUCCEEDED''],
       [Submit ''select 1'' ''q-1'', Poll ''q-1'' ''RUNNING'', Poll ''q-1'' ''SUCCEEDED'', Fetch ''q-1''])"
    using run_query_fetches_one_page [OF a b d, of "[]"]
    by (simp add: scripted_def two_pages_def lstrip_def)
  from b have b': "poll_after ?c (lstrip ''ID'' ''q-1'') 1 [''RUNNING'', ''SUCCEEDED''] = ''SUCCEEDED''"
    by simp
  from a b' c e show ?thesis by (intro conjI)
qed

text \<open>
  The claim as the specification states it fails: against a service that holds the
  result in two pages, \<^verbatim>\<open>run_query\<close> returns the rows of the first page only, while
  the complete result set has the row of the second page too.
\<close>

theorem run_query_leaves_second_page:
  "run_query (scripted ''q-1'' (two_pages [header, invoked ''fn-a''] [invoked ''fn-c'']))
      module_config ''select 1'' [''SUCCEEDED''] []
   = Some (Some \<lparr>Rows = [header, invoked ''fn-a''], NextToken = Some ''page-2''\<rparr>, [''SUCCEEDED''],
       [Submit ''select 1'' ''q-1'', Poll ''q-1'' ''SUCCEEDED'', Fetch ''q-1'']) \<and>
   spec_all_pages (scripted ''q-1'' (two_pages [header, invoked ''fn-a''] [invoked ''fn-c'']))
      ''q-1'' None [] [''SUCCEEDED'']
   = Some ([header, invoked ''fn-a'', invoked ''fn-c''], [''SUCCEEDED'']) \<and>
   [header, invoked ''fn-a''] \<noteq> [header, invoked ''fn-a'', invoked ''fn-c'']"
  by (simp add: run_scripted spec_all_pages.simps)

section \<open>C5: the identifier passed to the service\<close>

text \<open>
  C5 asks that the identifier returned at submission is passed unchanged to every
  status call and result call. \<^verbatim>\<open>run_query\<close> passes it unchanged to
  \<^verbatim>\<open>get_query_results\<close>, but to \<^verbatim>\<open>get_query_execution\<close> it passes
  \<^verbatim>\<open>.lstrip('ID')\<close> of it: for the identifier \<^verbatim>\<open>ID42\<close> the status call asks for
  \<^verbatim>\<open>42\<close>.
\<close>

theorem run_query_polls_stripped_identifier:
  "run_query (scripted ''ID42'' (one_page [header])) module_config ''select 1'' [''SUCCEEDED''] []
   = Some (Some \<lparr>Rows = [header], NextToken = None\<rparr>, [''SUCCEEDED''],
       [Submit ''select 1'' ''ID42'', Poll ''42'' ''SUCCEEDED'', Fetch ''ID42''])"
  by (simp add: run_scripted)

section \<open>C6: rows without the target cell\<close>

text \<open>
  C6, as the script does it. When every data row (every row after the first) has a
  first cell with a value, the parser returns the set of these values. When some data
  row has no first cell, or a first cell that is null, the parser does not skip it: at
  the first such row it raises IndexError (no cell) or KeyError (null cell), the rows
  after it are not read and no set is returned.
\<close>

theorem parser_stops_at_missing_cell:
  "get_set_of_function_arns_from_result_set result_set =
     (if list_all (\<lambda>row. function_arn_of row \<noteq> None) (drop 1 result_set)
      then Inr (Option.these (function_arn_of ` set (drop 1 result_set)))
      else Inl (if Data (hd (dropWhile (\<lambda>row. function_arn_of row \<noteq> None) (drop 1 result_set))) = []
                then IndexError else KeyError))"
  using add_function_arns_readable [of "drop 1 result_set" "{}"]
        add_function_arns_unreadable [of "drop 1 result_set" "{}"]
  by (simp add: get_set_of_function_arns_from_result_set_def)

theorem parser_stops_at_missing_cell_witness:
  "list_all (\<lambda>row. function_arn_of row \<noteq> None) (drop 1 [header, invoked ''fn-a'', invoked ''fn-c'']) \<and>
   get_set_of_function_arns_from_result_set [header, invoked ''fn-a'', invoked ''fn-c'']
     = Inr {''fn-a'', ''fn-c''} \<and>
   \<not> list_all (\<lambda>row. function_arn_of row \<noteq> None) (drop 1 [header, invoked ''fn-a'', Row [], invoked ''fn-c'']) \<and>
   get_set_of_function_arns_from_result_set [header, invoked ''fn-a'', Row [], invoked ''fn-c'']
     = Inl IndexError"
proof -
  have a: "list_all (\<lambda>row. function_arn_of row \<noteq> None) (drop 1 [header, invoked ''fn-a'', invoked ''fn-c''])"
    by (simp add: invoked_def)
  have b: "\<not> list_all (\<lambda>row. function_arn_of row \<noteq> None)
               (drop 1 [header, invoked ''fn-a'', Row [], invoked ''fn-c''])"
    by (simp add: invoked_def)
  have c: "get_set_of_function_arns_from_result_set [header, invoked ''fn-a'', invoked ''fn-c'']
             = Inr {''fn-a'', ''fn-c''}"
    using parser_stops_at_missing_cell [of "[header, invoked ''fn-a'', invoked ''fn-c'']"]
    by (auto simp: invoked_def)
  have d: "get_set_of_function_arns_from_result_set [header, invoked ''fn-a'', Row [], invoked ''fn-c'']
             = Inl IndexError"
    using parser_stops_at_missing_cell [of "[header, invoked ''fn-a'', Row [], invoked ''fn-c'']"]
    by (simp add: invoked_def)
  from a c b d show ?thesis by (intro conjI)
qed

text \<open>
  The claim as the specification states it fails: a null cell in the first data row
  ends the parsing with KeyError, and the identifier of the row after it is not
  returned.
\<close>

theorem parser_aborts_on_null_cell:
  "get_set_of_function_arns_from_result_set
     [header, Row [Datum None, Datum (Some ''2018-06-01T00:00:00Z'')], invoked ''fn-a'']
   = Inl KeyError"
  by (simp add: get_set_of_function_arns_from_result_set_def header_def invoked_def)

section \<open>C7: the statement for an empty inventory\<close>

text \<open>
  C7 asks that \<^verbatim>\<open>compute_activity\<close> is a valid statement when the list of
  identifiers is empty. \<^verbatim>\<open>build_query_strings\<close> has no case for the empty list:
  \<^verbatim>\<open>str([])[1:-1]\<close> is the empty text, and the filter is rendered as \<^verbatim>\<open>in ()\<close>, a
  list of values with no value in it.
\<close>

theorem empty_inventory_renders_empty_in_list:
  \<open>build_query_strings module_config [] =
     Inr (CREATE_TABLE_head @ ''cloudtrail_logs'' @ CREATE_TABLE_columns @
          ''s3://cloudtrail-logs-bucket/AWSLogs/123456789012/'' @ CREATE_TABLE_tail,
        CREATE_PARTITON_head @ ''s3://cloudtrail-logs-bucket/AWSLogs/123456789012/'' @
          CREATE_PARTITON_tail,
        ''\<newline>'' @
        ''select json_extract_scalar(requestparameters, '$.functionName') as function_name, Max (eventtime) as "Last Run"\<newline>'' @
        ''from cloudtrail_logs\<newline>'' @
        ''where eventname='Invoke'\<newline>'' @
        ''and year='2018'\<newline>'' @
        ''and from_iso8601_timestamp(eventtime) > current_timestamp - interval '1' month\<newline>'' @
        ''and json_extract_scalar(requestparameters, '$.functionName') in ()\<newline>'' @
        ''group by json_extract_scalar(requestparameters, '$.functionName')'')\<close>
  by (simp add: build_query_strings_eq module_config_def LAST_RUN_head_def LAST_RUN_tail_def)

section \<open>C8: a result set without header or target column\<close>

text \<open>
  C8, as the script does it. The result set of the last statement is read without any
  check of its shape, and there is no error of its own for a malformed one: what the
  run ends with depends on the rows after the first alone. The first row is dropped
  whatever it is, a header or not, and a result set with no rows at all is read as the
  empty active set, so that the run prints the whole inventory. When every row after
  the first has the target cell, the run ends with the inventory without the values of
  these cells. When one of them lacks the target cell, the run ends with the uncaught
  IndexError (no cell) or KeyError (null cell) of the first such row, and no stale set
  is printed.
\<close>

theorem main_reads_result_set_unchecked:
  assumes "build_query_strings cfg function_arns = Inr (q1, q2, q3)"
      and "run_queries athena_client cfg [q1, q2, q3] [] s [] = Some (query_results, s', tr)"
      and "last_result_set query_results = Inr result_set"
  shows "main athena_client cfg function_arns s =
           Some (if list_all (\<lambda>row. function_arn_of row \<noteq> None) (drop 1 result_set)
                 then Inr (set function_arns -
                           Option.these (function_arn_of ` set (drop 1 result_set)))
                 else Inl (if Data (hd (dropWhile (\<lambda>row. function_arn_of row \<noteq> None)
                                          (drop 1 result_set))) = []
                           then IndexError else KeyError),
                 s', tr)"
  using main_outcome [OF assms(1,2)] assms(3)
        add_function_arns_readable [of "drop 1 result_set" "{}"]
        add_function_arns_unreadable [of "drop 1 result_set" "{}"]
  by (simp add: get_set_of_function_arns_from_result_set_def difference_list_def)

theorem main_reads_result_set_unchecked_witness:
  "map_option fst (main (scripted ''q-1'' (one_page [header, Row []])) module_config [''fn-a''] [''SUCCEEDED'']) = Some (Inl IndexError) \<and>
   map_option fst (main (scripted ''q-1'' (one_page [])) module_config [''fn-a''] [''SUCCEEDED'']) = Some (Inr {''fn-a''}) \<and>
   map_option fst (main (scripted ''q-1'' (one_page [invoked ''fn-a''])) module_config [''fn-a''] [''SUCCEEDED'']) = Some (Inr {''fn-a''}) \<and>
   map_option fst (main (scripted ''q-1'' (one_page [Row [], invoked ''fn-a''])) module_config [''fn-a''] [''SUCCEEDED'']) = Some (Inr {})"
proof -
  have b1: "build_query_strings module_config [''fn-a''] =
     Inr (CREATE_TABLE_head @ ''cloudtrail_logs'' @ CREATE_TABLE_columns @
      ''s3://cloudtrail-logs-bucket/AWSLogs/123456789012/'' @ CREATE_TABLE_tail,
      CREATE_PARTITON_head @ ''s3://cloudtrail-logs-bucket/AWSLogs/123456789012/'' @
      CREATE_PARTITON_tail,
      LAST_RUN_head @ join '', '' (map repr [''fn-a'']) @ LAST_RUN_tail)"
    by (simp add: build_query_strings_eq module_config_def)
  have r1: "run_queries (scripted ''q-1'' (one_page [header, Row []])) module_config
       [CREATE_TABLE_head @ ''cloudtrail_logs'' @ CREATE_TABLE_columns @
      ''s3://cloudtrail-logs-bucket/AWSLogs/123456789012/'' @ CREATE_TABLE_tail,
      CREATE_PARTITON_head @ ''s3://cloudtrail-logs-bucket/AWSLogs/123456789012/'' @
      CREATE_PARTITON_tail,
      LAST_RUN_head @ join '', '' (map repr [''fn-a'']) @ LAST_RUN_tail] [] [''SUCCEEDED''] []
     = Some ([Some \<lparr>Rows = [header, Row []], NextToken = None\<rparr>, Some \<lparr>Rows = [header, Row []], NextToken = None\<rparr>, Some \<lparr>Rows = [header, Row []], NextToken = None\<rparr>], [''SUCCEEDED''],
       [Submit (CREATE_TABLE_head @ ''cloudtrail_logs'' @ CREATE_TABLE_columns @
      ''s3://cloudtrail-logs-bucket/AWSLogs/123456789012/'' @ CREATE_TABLE_tail) ''q-1'',
       Poll ''q-1'' ''SUCCEEDED'', Fetch ''q-1'',
       Submit (CREATE_PARTITON_head @ ''s3://cloudtrail-logs-bucket/AWSLogs/123456789012/'' @
      CREATE_PARTITON_tail) ''q-1'',
       Poll ''q-1'' ''SUCCEEDED'', Fetch ''q-1'',
       Submit (LAST_RUN_head @ join '', '' (map repr [''fn-a'']) @ LAST_RUN_tail) ''q-1'',
       Poll ''q-1'' ''SUCCEEDED'', Fetch ''q-1''])"
    by (simp add: run_query_def scripted_def run_query_loop.simps lstrip_def one_page_def)
  have l1: "last_result_set [Some \<lparr>Rows = [header, Row []], NextToken = None\<rparr>, Some \<lparr>Rows = [header, Row []], NextToken = None\<rparr>, Some \<lparr>Rows = [header, Row []], NextToken = None\<rparr>] = Inr [header, Row []]"
    by (simp add: last_result_set_def)
  have b2: "build_query_strings module_config [''fn-a''] =
     Inr (CREATE_TABLE_head @ ''cloudtrail_logs'' @ CREATE_TABLE_columns @
      ''s3://cloudtrail-logs-bucket/AWSLogs/123456789012/'' @ CREATE_TABLE_tail,
      CREATE_PARTITON_head @ ''s3://cloudtrail-logs-bucket/AWSLogs/123456789012/'' @
      CREATE_PARTITON_tail,
      LAST_RUN_head @ join '', '' (map repr [''fn-a'']) @ LAST_RUN_tail)"
    by (simp add: build_query_strings_eq module_config_def)
  have r2: "run_queries (scripted ''q-1'' (one_page [])) module_config
       [CREATE_TABLE_head @ ''cloudtrail_logs'' @ CREATE_TABLE_columns @
      ''s3://cloudtrail-logs-bucket/AWSLogs/123456789012/'' @ CREATE_TABLE_tail,
      CREATE_PARTITON_head @ ''s3://cloudtrail-logs-bucket/AWSLogs/123456789012/'' @
      CREATE_PARTITON_tail,
      LAST_RUN_head @ join '', '' (map repr [''fn-a'']) @ LAST_RUN_tail] [] [''SUCCEEDED''] []
     = Some ([Some \<lparr>Rows = [], NextToken = None\<rparr>, Some \<lparr>Rows = [], NextToken = None\<rparr>, Some \<lparr>Rows = [], NextToken = None\<rparr>], [''SUCCEEDED''],
       [Submit (CREATE_TABLE_head @ ''cloudtrail_logs'' @ CREATE_TABLE_columns @
      ''s3://cloudtrail-logs-bucket/AWSLogs/123456789012/'' @ CREATE_TABLE_tail) ''q-1'',
       Poll ''q-1'' ''SUCCEEDED'', Fetch ''q-1'',
       Submit (CREATE_PARTITON_head @ ''s3://cloudtrail-logs-bucket/AWSLogs/123456789012/'' @
      CREATE_PARTITON_tail) ''q-1'',
       Poll ''q-1'' ''SUCCEEDED'', Fetch ''q-1'',
       Submit (LAST_RUN_head @ join '', '' (map repr [''fn-a'']) @ LAST_RUN_tail) ''q-1'',
       Poll ''q-1'' ''SUCCEEDED'', Fetch ''q-1''])"
    by (simp add: run_query_def scripted_def run_query_loop.simps lstrip_def one_page_def)
  have l2: "last_result_set [Some \<lparr>Rows = [], NextToken = None\<rparr>, Some \<lparr>Rows = [], NextToken = None\<rparr>, Some \<lparr>Rows = [], NextToken = None\<rparr>] = Inr []"
    by (simp add: last_result_set_def)
  have b3: "build_query_strings module_config [''fn-a''] =
     Inr (CREATE_TABLE_head @ ''cloudtrail_logs'' @ CREATE_TABLE_columns @
      ''s3://cloudtrail-logs-bucket/AWSLogs/123456789012/'' @ CREATE_TABLE_tail,
      CREATE_PARTITON_head @ ''s3://cloudtrail-logs-bucket/AWSLogs/123456789012/'' @
      CREATE_PARTITON_tail,
      LAST_RUN_head @ join '', '' (map repr [''fn-a'']) @ LAST_RUN_tail)"
    by (simp add: build_query_strings_eq module_config_def)
  have r3: "run_queries (scripted ''q-1'' (one_page [invoked ''fn-a''])) module_config
       [CREATE_TABLE_head @ ''cloudtrail_logs'' @ CREATE_TABLE_columns @
      ''s3://cloudtrail-logs-bucket/AWSLogs/123456789012/'' @ CREATE_TABLE_tail,
      CREATE_PARTITON_head @ ''s3://cloudtrail-logs-bucket/AWSLogs/123456789012/'' @
      CREATE_PARTITON_tail,
      LAST_RUN_head @ join '', '' (map repr [''fn-a'']) @ LAST_RUN_tail] [] [''SUCCEEDED''] []
     = Some ([Some \<lparr>Rows = [invoked ''fn-a''], NextToken = None\<rparr>, Some \<lparr>Rows = [invoked ''fn-a''], NextToken = None\<rparr>, Some \<lparr>Rows = [invoked ''fn-a''], NextToken = None\<rparr>], [''SUCCEEDED''],
       [Submit (CREATE_TABLE_head @ ''cloudtrail_logs'' @ CREATE_TABLE_columns @
      ''s3://cloudtrail-logs-bucket/AWSLogs/123456789012/'' @ CREATE_TABLE_tail) ''q-1'',
       Poll ''q-1'' ''SUCCEEDED'', Fetch ''q-1'',
       Submit (CREATE_PARTITON_head @ ''s3://cloudtrail-logs-bucket/AWSLogs/123456789012/'' @
      CREATE_PARTITON_tail) ''q-1'',
       Poll ''q-1'' ''SUCCEEDED'', Fetch ''q-1'',
       Submit (LAST_RUN_head @ join '', '' (map repr [''fn-a'']) @ LAST_RUN_tail) ''q-1'',
       Poll ''q-1'' ''SUCCEEDED'', Fetch ''q-1''])"
    by (simp add: run_query_def scripted_def run_query_loop.simps lstrip_def one_page_def)
  have l3: "last_result_set [Some \<lparr>Rows = [invoked ''fn-a''], NextToken = None\<rparr>, Some \<lparr>Rows = [invoked ''fn-a''], NextToken = None\<rparr>, Some \<lparr>Rows = [invoked ''fn-a''], NextToken = None\<rparr>] = Inr [invoked ''fn-a'']"
    by (simp add: last_result_set_def)
  have b4: "build_query_strings module_config [''fn-a''] =
     Inr (CREATE_TABLE_head @ ''cloudtrail_logs'' @ CREATE_TABLE_columns @
      ''s3://cloudtrail-logs-bucket/AWSLogs/123456789012/'' @ CREATE_TABLE_tail,
      CREATE_PARTITON_head @ ''s3://cloudtrail-logs-bucket/AWSLogs/123456789012/'' @
      CREATE_PARTITON_tail,
      LAST_RUN_head @ join '', '' (map repr [''fn-a'']) @ LAST_RUN_tail)"
    by (simp add: build_query_strings_eq module_config_def)
  have r4: "run_queries (scripted ''q-1'' (one_page [Row [], invoked ''fn-a''])) module_config
       [CREATE_TABLE_head @ ''cloudtrail_logs'' @ CREATE_TABLE_columns @
      ''s3://cloudtrail-logs-bucket/AWSLogs/123456789012/'' @ CREATE_TABLE_tail,
      CREATE_PARTITON_head @ ''s3://cloudtrail-logs-bucket/AWSLogs/123456789012/'' @
      CREATE_PARTITON_tail,
      LAST_RUN_head @ join '', '' (map repr [''fn-a'']) @ LAST_RUN_tail] [] [''SUCCEEDED''] []
     = Some ([Some \<lparr>Rows = [Row [], invoked ''fn-a''], NextToken = None\<rparr>, Some \<lparr>Rows = [Row [], invoked ''fn-a''], NextToken = None\<rparr>, Some \<lparr>Rows = [Row [], invoked ''fn-a''], NextToken = None\<rparr>], [''SUCCEEDED''],
       [Submit (CREATE_TABLE_head @ ''cloudtrail_logs'' @ CREATE_TABLE_columns @
      ''s3://cloudtrail-logs-bucket/AWSLogs/123456789012/'' @ CREATE_TABLE_tail) ''q-1'',
       Poll ''q-1'' ''SUCCEEDED'', Fetch ''q-1'',
       Submit (CREATE_PARTITON_head @ ''s3://cloudtrail-logs-bucket/AWSLogs/123456789012/'' @
      CREATE_PARTITON_tail) ''q-1'',
       Poll ''q-1'' ''SUCCEEDED'', Fetch ''q-1'',
       Submit (LAST_RUN_head @ join '', '' (map repr [''fn-a'']) @ LAST_RUN_tail) ''q-1'',
       Poll ''q-1'' ''SUCCEEDED'', Fetch ''q-1''])"
    by (simp add: run_query_def scripted_def run_query_loop.simps lstrip_def one_page_def)
  have l4: "last_result_set [Some \<lparr>Rows = [Row [], invoked ''fn-a''], NextToken = None\<rparr>, Some \<lparr>Rows = [Row [], invoked ''fn-a''], NextToken = None\<rparr>, Some \<lparr>Rows = [Row [], invoked ''fn-a''], NextToken = None\<rparr>] = Inr [Row [], invoked ''fn-a'']"
    by (simp add: last_result_set_def)

  from main_reads_result_set_unchecked [OF b1 r1 l1]
  have m1: "map_option fst (main (scripted ''q-1'' (one_page [header, Row []])) module_config [''fn-a''] [''SUCCEEDED'']) = Some (Inl IndexError)" by simp
  from main_reads_result_set_unchecked [OF b2 r2 l2]
  have m2: "map_option fst (main (scripted ''q-1'' (one_page [])) module_config [''fn-a''] [''SUCCEEDED'']) = Some (Inr {''fn-a''})" by simp
  from main_reads_result_set_unchecked [OF b3 r3 l3]
  have m3: "map_option fst (main (scripted ''q-1'' (one_page [invoked ''fn-a''])) module_config [''fn-a''] [''SUCCEEDED'']) = Some (Inr {''fn-a''})" by simp
  from main_reads_result_set_unchecked [OF b4 r4 l4]
  have m4: "map_option fst (main (scripted ''q-1'' (one_page [Row [], invoked ''fn-a''])) module_config [''fn-a''] [''SUCCEEDED'']) = Some (Inr {})" by (simp add: invoked_def)
  from m1 m2 m3 m4 show ?thesis by (intro conjI)
qed

text \<open>
  The claim as the specification states it fails: a result set without any row, so
  without its header, is not reported; the run ends normally and prints every
  function of the inventory as unused.
\<close>

theorem main_guesses_empty_active_set:
  "main (scripted ''q-1'' (one_page [])) module_config [''fn-a'', ''fn-b''] [''SUCCEEDED'']
   = Some (Inr {''fn-a'', ''fn-b''}, [''SUCCEEDED''],
       [Submit (CREATE_TABLE_head @ ''cloudtrail_logs'' @ CREATE_TABLE_columns @
                  ''s3://cloudtrail-logs-bucket/AWSLogs/123456789012/'' @ CREATE_TABLE_tail) ''q-1'',
        Poll ''q-1'' ''SUCCEEDED'', Fetch ''q-1'',
        Submit (CREATE_PARTITON_head @ ''s3://cloudtrail-logs-bucket/AWSLogs/123456789012/'' @
                  CREATE_PARTITON_tail) ''q-1'',
        Poll ''q-1'' ''SUCCEEDED'', Fetch ''q-1'',
        Submit (LAST_RUN_head @ [CHR 0x27] @ ''fn-a', 'fn-b'' @ [CHR 0x27] @ LAST_RUN_tail) ''q-1'',
        Poll ''q-1'' ''SUCCEEDED'', Fetch ''q-1''])"
  by (simp add: run_scripted)

section \<open>C9: the table name in the statements\<close>

text \<open>
  C9. Of the three statements only \<^verbatim>\<open>create_table\<close> depends on \<^verbatim>\<open>TABLE_NAME\<close>: under
  any other table name the \<^verbatim>\<open>add_partition\<close> and \<^verbatim>\<open>compute_activity\<close> statements are
  the same texts, the \<^verbatim>\<open>create_table\<close> statement is the same text exactly when the
  name is the same, and the other two name the table \<^verbatim>\<open>cloudtrail_logs\<close> whatever
  \<^verbatim>\<open>TABLE_NAME\<close> is.
\<close>

theorem only_create_table_reads_TABLE_NAME:
  \<open>\<exists>create_table_query create_table_query' create_partition_query last_run_query.
     build_query_strings cfg function_arns =
       Inr (create_table_query, create_partition_query, last_run_query) \<and>
     build_query_strings (cfg\<lparr>TABLE_NAME := table_name\<rparr>) function_arns =
       Inr (create_table_query', create_partition_query, last_run_query) \<and>
     (create_table_query' = create_table_query) = (table_name = TABLE_NAME cfg) \<and>
     (\<exists>rest. create_partition_query = ''\<newline>ALTER TABLE cloudtrail_logs add partition '' @ rest) \<and>
     (\<exists>rest. last_run_query =
        ''\<newline>'' @
        ''select json_extract_scalar(requestparameters, '$.functionName') as function_name, Max (eventtime) as "Last Run"\<newline>'' @
        ''from cloudtrail_logs\<newline>'' @ rest)\<close>
proof -
  have p: \<open>\<exists>rest. CREATE_PARTITON_head @ CLOUDTRAIL_S3_BUCKET_NAME cfg @ CREATE_PARTITON_tail
              = ''\<newline>ALTER TABLE cloudtrail_logs add partition '' @ rest\<close>
    by (simp add: CREATE_PARTITON_head_def)
  have l: \<open>\<exists>rest. LAST_RUN_head @ join '', '' (map repr function_arns) @ LAST_RUN_tail =
        ''\<newline>'' @
        ''select json_extract_scalar(requestparameters, '$.functionName') as function_name, Max (eventtime) as "Last Run"\<newline>'' @
        ''from cloudtrail_logs\<newline>'' @ rest\<close>
    by (simp add: LAST_RUN_head_def)
  have c: "(CREATE_TABLE_head @ table_name @ CREATE_TABLE_columns @ CLOUDTRAIL_S3_BUCKET_NAME cfg @ CREATE_TABLE_tail
            = CREATE_TABLE_head @ TABLE_NAME cfg @ CREATE_TABLE_columns @ CLOUDTRAIL_S3_BUCKET_NAME cfg @ CREATE_TABLE_tail)
           = (table_name = TABLE_NAME cfg)"
    by simp
  show ?thesis
    unfolding build_query_strings_eq
    using p l c by (simp del: append_assoc)
qed

theorem only_create_table_reads_TABLE_NAME_witness:
  \<open>''lambda_trail'' \<noteq> TABLE_NAME module_config \<and>
   (\<exists>create_table_query create_table_query' create_partition_query last_run_query.
     build_query_strings module_config [''fn-a''] =
       Inr (create_table_query, create_partition_query, last_run_query) \<and>
     build_query_strings (module_config\<lparr>TABLE_NAME := ''lambda_trail''\<rparr>) [''fn-a''] =
       Inr (create_table_query', create_partition_query, last_run_query) \<and>
     create_table_query' \<noteq> create_table_query \<and>
     (\<exists>rest. create_partition_query = ''\<newline>ALTER TABLE cloudtrail_logs add partition '' @ rest) \<and>
     (\<exists>rest. last_run_query =
        ''\<newline>'' @
        ''select json_extract_scalar(requestparameters, '$.functionName') as function_name, Max (eventtime) as "Last Run"\<newline>'' @
        ''from cloudtrail_logs\<newline>'' @ rest))\<close>
proof -
  have n: "''lambda_trail'' \<noteq> TABLE_NAME module_config" by (simp add: module_config_def)
  from only_create_table_reads_TABLE_NAME [of module_config "[''fn-a'']" "''lambda_trail''"] n
  show ?thesis by (intro conjI) metis+
qed

section \<open>C10: how the identifiers are embedded\<close>








end
